theory Spec2Isabelle
  imports Complex_Main "HOL-Library.Sublist" "HOL-Library.Log_Nat"
begin

section \<open>Python exceptions\<close>

text \<open>
  The exceptions that the modelled code can raise. A function that can raise returns
  \<open>error + 'a\<close>, with \<open>Inl\<close> for the exception; \<^verbatim>\<open>KeyError\<close> carries the column names
  that pandas reports as missing and \<^verbatim>\<open>FileNotFoundError\<close> the path.
\<close>

datatype error = FileNotFoundError string | KeyError "string list" | AttributeError
  | TypeError | ValueError | OverflowError | IndexError

section \<open>Python strings\<close>

text \<open>
  A Python \<^verbatim>\<open>str\<close> is modelled as a \<^typ>\<open>string\<close>, one \<^typ>\<open>char\<close> per code point:
  the texts of the model are those of code points 0 to 255 (ASCII and Latin-1), and on
  them the functions below are those of Python 3. \<^verbatim>\<open>str.isspace\<close>, and with it
  \<^verbatim>\<open>str.strip\<close> and the regular expression class \<^verbatim>\<open>\s\<close>, holds for the code points 9 to
  13, 28 to 32, 133 and 160. The class \<^verbatim>\<open>\w\<close> holds for the underscore and for what
  \<^verbatim>\<open>str.isalnum\<close> accepts: the ASCII letters and digits, the letters 170, 181, 186, 192
  to 214, 216 to 246 and 248 to 255, and the numeric characters 178, 179, 185 and 188 to
  190. \<^verbatim>\<open>str.lower\<close> adds 32 to the capital letters 65 to 90, 192 to 214 and 216 to 222.
  \<^verbatim>\<open>str.upper\<close> can leave the range (and lengthen the text), so its result is a list of
  code points: it subtracts 32 from the small letters 97 to 122, 224 to 246 and 248 to
  254, and turns 223 into two letters S, 255 into 376 and 181 into 924.
\<close>

definition is_space :: "char \<Rightarrow> bool" where
  "is_space c = (let n = (of_char c :: nat)
     in (9 \<le> n \<and> n \<le> 13) \<or> (28 \<le> n \<and> n \<le> 32) \<or> n = 133 \<or> n = 160)"

definition is_word :: "char \<Rightarrow> bool" where
  "is_word c = (let n = (of_char c :: nat) in
     (48 \<le> n \<and> n \<le> 57) \<or> (65 \<le> n \<and> n \<le> 90) \<or> n = 95 \<or> (97 \<le> n \<and> n \<le> 122) \<or>
     n = 170 \<or> n = 178 \<or> n = 179 \<or> n = 181 \<or> n = 185 \<or> n = 186 \<or>
     (188 \<le> n \<and> n \<le> 190) \<or> (192 \<le> n \<and> n \<le> 214) \<or> (216 \<le> n \<and> n \<le> 246) \<or>
     248 \<le> n)"

definition lower_char :: "char \<Rightarrow> char" where
  "lower_char c = (let n = (of_char c :: nat)
     in if (65 \<le> n \<and> n \<le> 90) \<or> (192 \<le> n \<and> n \<le> 214) \<or> (216 \<le> n \<and> n \<le> 222)
        then char_of (n + 32) else c)"

definition upper_char :: "char \<Rightarrow> nat list" where
  "upper_char c = (let n = (of_char c :: nat)
     in if (97 \<le> n \<and> n \<le> 122) \<or> (224 \<le> n \<and> n \<le> 246) \<or> (248 \<le> n \<and> n \<le> 254)
        then [n - 32]
        else if n = 223 then [83, 83]
        else if n = 255 then [376]
        else if n = 181 then [924]
        else [n])"

definition py_lower :: "string \<Rightarrow> string" where
  "py_lower s = map lower_char s"

definition py_upper :: "string \<Rightarrow> nat list" where
  "py_upper s = concat (map upper_char s)"

definition lstrip :: "string \<Rightarrow> string" where
  "lstrip s = dropWhile is_space s"

definition rstrip :: "string \<Rightarrow> string" where
  "rstrip s = rev (dropWhile is_space (rev s))"

text \<open>\<^verbatim>\<open>s.strip()\<close>: whitespace is removed at both ends.\<close>

definition strip :: "string \<Rightarrow> string" where
  "strip s = rstrip (lstrip s)"

text \<open>\<^verbatim>\<open>s.startswith(p)\<close> and \<^verbatim>\<open>s.endswith(p)\<close>.\<close>

definition startswith :: "'a list \<Rightarrow> 'a list \<Rightarrow> bool" where
  "startswith s p = (take (length p) s = p)"

definition endswith :: "'a list \<Rightarrow> 'a list \<Rightarrow> bool" where
  "endswith s p = (length p \<le> length s \<and> drop (length s - length p) s = p)"

text \<open>\<^verbatim>\<open>s.replace(old, new)\<close> for a one-character \<^verbatim>\<open>old\<close>.\<close>

definition replace_char :: "char \<Rightarrow> string \<Rightarrow> string \<Rightarrow> string" where
  "replace_char old new s = concat (map (\<lambda>c. if c = old then new else [c]) s)"

section \<open>Title normalization (utils.normalize\_title)\<close>

text \<open>
  \<^verbatim>\<open>re.sub(r"\(.*?\)", "", s)\<close>. The pattern matches an opening parenthesis, the
  shortest run of characters other than the newline, and a closing parenthesis; the
  substitution deletes the leftmost matches, scanning from left to right. An opening
  parenthesis with no closing one before the next newline is kept.
  \<open>has_close cs\<close> says that the text after an opening parenthesis reaches a closing
  one before any newline; the flag of \<open>sub_parens\<close> says that the scan is inside a match.
\<close>

fun has_close :: "string \<Rightarrow> bool" where
  "has_close [] = False"
| "has_close (c # cs) =
     (if c = CHR '')'' then True else if c = CHR 0x0A then False else has_close cs)"

fun sub_parens :: "bool \<Rightarrow> string \<Rightarrow> string" where
  "sub_parens inside [] = []"
| "sub_parens True (c # cs) =
     (if c = CHR '')'' then sub_parens False cs else sub_parens True cs)"
| "sub_parens False (c # cs) =
     (if c = CHR ''('' \<and> has_close cs then sub_parens True cs else c # sub_parens False cs)"

definition remove_parens :: "string \<Rightarrow> string" where
  "remove_parens s = sub_parens False s"

text \<open>\<^verbatim>\<open>re.sub(r"[^\w\s]", " ", s)\<close>: every character that is neither a word character
  nor whitespace becomes a space.\<close>

definition remove_punct :: "string \<Rightarrow> string" where
  "remove_punct s = map (\<lambda>c. if is_word c \<or> is_space c then c else CHR '' '') s"

text \<open>\<^verbatim>\<open>re.sub(r"\s+", " ", s)\<close>: every maximal run of whitespace becomes one space.
  The flag of \<open>sub_ws\<close> says that the scan is inside a run, whose space is already
  written.\<close>

fun sub_ws :: "bool \<Rightarrow> string \<Rightarrow> string" where
  "sub_ws in_run [] = []"
| "sub_ws in_run (c # cs) =
     (if is_space c then (if in_run then sub_ws True cs else CHR '' '' # sub_ws True cs)
      else c # sub_ws False cs)"

definition collapse_ws :: "string \<Rightarrow> string" where
  "collapse_ws s = sub_ws False s"

text \<open>
  The loop over the three articles. It has no \<^verbatim>\<open>break\<close>: each article is tested once,
  in the order of the list, against the string as the earlier iterations left it.
\<close>

definition strip_article :: "string \<Rightarrow> string \<Rightarrow> string" where
  "strip_article article s = (if startswith s article then drop (length article) s else s)"

definition articles :: "string list" where
  "articles = [''the '', ''a '', ''an '']"

definition strip_articles :: "string \<Rightarrow> string" where
  "strip_articles s = fold strip_article articles s"

definition normalize_title :: "string \<Rightarrow> string" where
  "normalize_title title =
     (if title = [] then []
      else let s = strip (py_lower title);
               s = remove_parens s;
               s = replace_char CHR ''&'' ''and'' s;
               s = remove_punct s;
               s = strip (collapse_ws s)
           in strip_articles s)"

subsection \<open>The shape of a normalized title\<close>

text \<open>
  Predicates used to reason about \<open>normalize_title\<close>: a \<open>stable\<close> character is one that
  \<^verbatim>\<open>str.lower\<close> leaves alone; \<open>pre_char\<close> describes the characters left after the
  punctuation step, \<open>norm_char\<close> those left after the whitespace step; a \<open>clean\<close> string
  consists of such characters, has no two adjacent spaces and no space at either end.
\<close>

definition norm_char :: "char \<Rightarrow> bool" where
  "norm_char c = (c = CHR '' '' \<or> (is_word c \<and> lower_char c = c))"

definition pre_char :: "char \<Rightarrow> bool" where
  "pre_char c = ((is_space c \<or> is_word c) \<and> lower_char c = c)"

fun single_spaced :: "string \<Rightarrow> bool" where
  "single_spaced [] = True"
| "single_spaced [c] = True"
| "single_spaced (c # d # r) = (\<not> (c = CHR '' '' \<and> d = CHR '' '') \<and> single_spaced (d # r))"

definition trimmed :: "string \<Rightarrow> bool" where
  "trimmed t = (t = [] \<or> (hd t \<noteq> CHR '' '' \<and> last t \<noteq> CHR '' ''))"

definition clean :: "string \<Rightarrow> bool" where
  "clean t = (list_all norm_char t \<and> single_spaced t \<and> trimmed t)"

definition stable :: "char \<Rightarrow> bool" where
  "stable c = (lower_char c = c)"

definition has_leading_article :: "string \<Rightarrow> bool" where
  "has_leading_article s = (startswith s ''the '' \<or> startswith s ''a '' \<or> startswith s ''an '')"

section \<open>Floating point numbers\<close>

text \<open>
  A Python \<^verbatim>\<open>float\<close> is an IEEE 754 binary64 number: \<open>Finite neg m e\<close> is the number
  \<open>m * 2 ^ e\<close> (negated when \<open>neg\<close> holds) with \<open>0 \<le> m \<le> 2 ^ 53\<close>, \<open>Infinite neg\<close> an infinity
  and \<open>FNaN\<close> a NaN. \<open>round_double neg p q\<close> rounds the rational \<open>p / q\<close> (\<open>0 \<le> p\<close>,
  \<open>0 < q\<close>) to the nearest binary64 number, ties to even: 53 significant bits, the
  exponent of the last bit no smaller than \<open>-1074\<close> (subnormal numbers), and infinity from
  \<open>2 ^ 1024\<close> on. Both the conversion of a decimal string (\<^verbatim>\<open>float(text)\<close>) and the
  multiplication round their exact result in this way.
\<close>

datatype pyfloat = Finite bool int int | Infinite bool | FNaN

function bit_length :: "int \<Rightarrow> int" where
  "bit_length n = (if n \<le> 0 then 0 else 1 + bit_length (n div 2))"
  by pat_completeness auto
termination
  by (relation "measure nat") auto

declare bit_length.simps [simp del]

text \<open>\<open>floor_log2 p q\<close> is the integer \<open>k\<close> with \<open>2 ^ k \<le> p / q < 2 ^ (k + 1)\<close>.\<close>

definition floor_log2 :: "int \<Rightarrow> int \<Rightarrow> int" where
  "floor_log2 p q =
     (let d = bit_length p - bit_length q
      in if (if 0 \<le> d then q * 2 ^ nat d \<le> p else q \<le> p * 2 ^ nat (- d)) then d else d - 1)"

definition round_double :: "bool \<Rightarrow> int \<Rightarrow> int \<Rightarrow> pyfloat" where
  "round_double neg p q =
     (if p = 0 then Finite neg 0 0
      else let e = max (floor_log2 p q - 52) (- 1074);
               num = (if 0 \<le> e then p else p * 2 ^ nat (- e));
               den = (if 0 \<le> e then q * 2 ^ nat e else q);
               m0 = num div den;
               r = num mod den;
               m = (if den < 2 * r \<or> (2 * r = den \<and> odd m0) then m0 + 1 else m0)
           in if 971 < e \<or> (e = 971 \<and> m = 2 ^ 53) then Infinite neg else Finite neg m e)"

text \<open>\<^verbatim>\<open>x * n\<close> for a float \<open>x\<close> and a positive integer \<open>n\<close> below \<open>2 ^ 53\<close>, which converts to
  a float exactly.\<close>

definition float_mul_int :: "pyfloat \<Rightarrow> int \<Rightarrow> pyfloat" where
  "float_mul_int x n =
     (case x of
        Finite neg m e \<Rightarrow>
          (if 0 \<le> e then round_double neg (m * n * 2 ^ nat e) 1
           else round_double neg (m * n) (2 ^ nat (- e)))
      | Infinite neg \<Rightarrow> Infinite neg
      | FNaN \<Rightarrow> FNaN)"

text \<open>\<^verbatim>\<open>int(x)\<close> truncates towards zero; an infinity raises \<^verbatim>\<open>OverflowError\<close>, a NaN
  \<^verbatim>\<open>ValueError\<close>.\<close>

definition py_int_of_float :: "pyfloat \<Rightarrow> error + int" where
  "py_int_of_float x =
     (case x of
        Finite neg m e \<Rightarrow>
          (let a = (if 0 \<le> e then m * 2 ^ nat e else m div 2 ^ nat (- e))
           in Inr (if neg then - a else a))
      | Infinite neg \<Rightarrow> Inl OverflowError
      | FNaN \<Rightarrow> Inl ValueError)"

subsection \<open>\<^verbatim>\<open>float(text)\<close>\<close>

text \<open>
  The conversion of a string, as CPython does it. A text with a character outside ASCII
  is first rewritten: a character below 127 stays, whitespace becomes a space, and any
  other character (none above 126 is a decimal digit in this range) becomes a question
  mark, at which the text ends. Then underscores are accepted between two digits only and
  removed; whitespace of the C locale (code points 9 to 13 and 32) is stripped at both
  ends; what remains is an optional sign followed by \<^verbatim>\<open>inf\<close>, \<^verbatim>\<open>infinity\<close> or \<^verbatim>\<open>nan\<close> in
  any case, or by a decimal number: digits with an optional point, at least one digit in
  all, and an optional exponent. \<open>None\<close> stands for \<^verbatim>\<open>ValueError\<close>.
\<close>

fun to_ascii :: "string \<Rightarrow> string" where
  "to_ascii [] = []"
| "to_ascii (c # cs) =
     (if (of_char c :: nat) < 127 then c # to_ascii cs
      else if is_space c then CHR '' '' # to_ascii cs
      else ''?'')"

definition float_text :: "string \<Rightarrow> string" where
  "float_text s = (if list_all (\<lambda>c. (of_char c :: nat) < 128) s then s else to_ascii s)"

definition is_digit :: "char \<Rightarrow> bool" where
  "is_digit c = (let n = (of_char c :: nat) in 48 \<le> n \<and> n \<le> 57)"

definition is_cspace :: "char \<Rightarrow> bool" where
  "is_cspace c = (let n = (of_char c :: nat) in (9 \<le> n \<and> n \<le> 13) \<or> n = 32)"

definition digits_value :: "string \<Rightarrow> int" where
  "digits_value ds = foldl (\<lambda>a c. 10 * a + (of_char c - 48)) 0 ds"

fun underscores :: "char option \<Rightarrow> string \<Rightarrow> string option" where
  "underscores prev [] = (if prev = Some CHR ''_'' then None else Some [])"
| "underscores prev (c # cs) =
     (if c = CHR ''_'' then
        (case prev of
           None \<Rightarrow> None
         | Some p \<Rightarrow> if is_digit p then underscores (Some c) cs else None)
      else if prev = Some CHR ''_'' \<and> \<not> is_digit c then None
      else map_option ((#) c) (underscores (Some c) cs))"

definition split_sign :: "string \<Rightarrow> bool \<times> string" where
  "split_sign s =
     (case s of
        [] \<Rightarrow> (False, [])
      | c # cs \<Rightarrow> if c = CHR ''-'' then (True, cs) else if c = CHR ''+'' then (False, cs)
                  else (False, s))"

text \<open>\<open>parse_decimal s = Some (m, e)\<close>: the unsigned decimal number \<open>s\<close> is \<open>m * 10 ^ e\<close>.\<close>

definition parse_decimal :: "string \<Rightarrow> (int \<times> int) option" where
  "parse_decimal s =
     (let ip = takeWhile is_digit s;
          r1 = dropWhile is_digit s;
          fp = (case r1 of [] \<Rightarrow> [] | c # r \<Rightarrow> if c = CHR ''.'' then takeWhile is_digit r else []);
          r2 = (case r1 of [] \<Rightarrow> [] | c # r \<Rightarrow> if c = CHR ''.'' then dropWhile is_digit r else r1)
      in if ip = [] \<and> fp = [] then None
         else (case r2 of
                 [] \<Rightarrow> Some (digits_value (ip @ fp), - int (length fp))
               | c # r \<Rightarrow>
                   if c = CHR ''e'' \<or> c = CHR ''E'' then
                     (let (eneg, ds) = split_sign r
                      in if ds \<noteq> [] \<and> list_all is_digit ds then
                           Some (digits_value (ip @ fp),
                                 (if eneg then - digits_value ds else digits_value ds)
                                   - int (length fp))
                         else None)
                   else None))"

definition py_float :: "string \<Rightarrow> pyfloat option" where
  "py_float s =
     (case underscores None (float_text s) of
        None \<Rightarrow> None
      | Some s1 \<Rightarrow>
          (let t = rev (dropWhile is_cspace (rev (dropWhile is_cspace s1)));
               (neg, u) = split_sign t
           in if py_lower u = ''inf'' \<or> py_lower u = ''infinity'' then Some (Infinite neg)
              else if py_lower u = ''nan'' then Some FNaN
              else (case parse_decimal u of
                      None \<Rightarrow> None
                    | Some (m, e) \<Rightarrow>
                        Some (if 0 \<le> e then round_double neg (m * 10 ^ nat e) 1
                              else round_double neg m (10 ^ nat (- e))))))"

section \<open>Money strings (utils.parse\_money)\<close>

text \<open>
  The argument is \<open>Some text\<close> for a \<^verbatim>\<open>str\<close> and \<open>None\<close> for anything else (\<^verbatim>\<open>None\<close>
  included), which the first guard turns into \<^verbatim>\<open>None\<close>. The result is \<open>Inr None\<close> for
  \<^verbatim>\<open>None\<close>, \<open>Inr (Some n)\<close> for the integer \<open>n\<close>, and \<open>Inl e\<close> when the exception \<open>e\<close>
  leaves the function: the handler catches \<^verbatim>\<open>ValueError\<close> and \<^verbatim>\<open>TypeError\<close> only.

  The en dash and the em dash of the placeholder tuple are code points above 255, which
  no text of the model equals: the list below has the four other members of the tuple.
\<close>

definition placeholders :: "string list" where
  "placeholders = [''-'', ''n/a'', ''N/A'', '''']"

definition code_points :: "string \<Rightarrow> nat list" where
  "code_points s = map of_char s"

text \<open>\<^verbatim>\<open>int(float(body) * mult)\<close> inside the \<^verbatim>\<open>try\<close>; \<open>mult = 1\<close> stands for the last
  branch, which does not multiply.\<close>

definition money_value :: "string \<Rightarrow> int \<Rightarrow> error + int option" where
  "money_value body mult =
     (case py_float body of
        None \<Rightarrow> Inr None
      | Some x \<Rightarrow>
          (case py_int_of_float (if mult = 1 then x else float_mul_int x mult) of
             Inl ValueError \<Rightarrow> Inr None
           | Inl TypeError \<Rightarrow> Inr None
           | Inl e \<Rightarrow> Inl e
           | Inr n \<Rightarrow> Inr (Some n)))"

definition parse_money :: "string option \<Rightarrow> error + int option" where
  "parse_money arg =
     (case arg of
        None \<Rightarrow> Inr None
      | Some text0 \<Rightarrow>
          if text0 = [] then Inr None
          else let text = strip text0
               in if text \<in> set placeholders then Inr None
                  else let text = strip (replace_char CHR '','' [] (replace_char CHR ''$'' [] text))
                       in if endswith (py_upper text) (code_points ''B'') then
                            money_value (butlast text) 1000000000
                          else if endswith (py_upper text) (code_points ''M'') then
                            money_value (butlast text) 1000000
                          else if endswith (py_upper text) (code_points ''K'') then
                            money_value (butlast text) 1000
                          else money_value text 1)"

section \<open>Tables (pandas DataFrame)\<close>

text \<open>
  A cell holds what pandas holds in a column read from CSV or computed by the pipeline:
  Python's \<^verbatim>\<open>None\<close>, the float NaN, a number, a text, a \<^verbatim>\<open>datetime.date\<close> (as its
  proleptic ordinal, so that dates compare and subtract as integers) or a boolean.
  pandas treats \<^verbatim>\<open>None\<close> and NaN alike as missing (\<open>isna\<close>); Python code that reads a
  cell does not: \<^verbatim>\<open>None\<close> is falsy and NaN is truthy.

  A table is its list of column names and its rows in order; a row maps a column name
  to the cell. The row labels are those of a fresh \<^verbatim>\<open>RangeIndex\<close>, as \<^verbatim>\<open>read_csv\<close> and
  \<^verbatim>\<open>pd.merge\<close> produce them, so that a row's label is its position.
\<close>

datatype cell = PyNone | NaN | Num real | Str string | DateV int | BoolV bool

type_synonym row = "string \<Rightarrow> cell"

record frame =
  columns :: "string list"
  rows :: "row list"

definition isna :: "cell \<Rightarrow> bool" where
  "isna c = (c = PyNone \<or> c = NaN)"

text \<open>\<^verbatim>\<open>a.fillna(b)\<close>, cell by cell: a missing cell of \<open>a\<close> takes the cell of \<open>b\<close>.\<close>

definition fillna :: "cell \<Rightarrow> cell \<Rightarrow> cell" where
  "fillna a b = (if isna a then b else a)"

text \<open>Sequencing of computations that can raise: the first exception wins.\<close>

definition and_then :: "error + 'a \<Rightarrow> ('a \<Rightarrow> error + 'b) \<Rightarrow> error + 'b" where
  "and_then x f = (case x of Inl e \<Rightarrow> Inl e | Inr v \<Rightarrow> f v)"

fun sequence_err :: "(error + 'a) list \<Rightarrow> error + 'a list" where
  "sequence_err [] = Inr []"
| "sequence_err (x # xs) =
     (case x of
        Inl e \<Rightarrow> Inl e
      | Inr v \<Rightarrow> (case sequence_err xs of Inl e \<Rightarrow> Inl e | Inr vs \<Rightarrow> Inr (v # vs)))"

text \<open>\<^verbatim>\<open>df[c]\<close> raises \<^verbatim>\<open>KeyError\<close> for a column that the table does not have.\<close>

definition getcol :: "frame \<Rightarrow> string \<Rightarrow> error + cell list" where
  "getcol df c =
     (if c \<in> set (columns df) then Inr (map (\<lambda>r. r c) (rows df)) else Inl (KeyError [c]))"

text \<open>\<^verbatim>\<open>df[[c1, c2, ...]]\<close> keeps the listed columns, in the order of the list, and raises
  \<^verbatim>\<open>KeyError\<close> with the names that the table does not have.\<close>

definition restrict_row :: "string list \<Rightarrow> row \<Rightarrow> row" where
  "restrict_row cs r = (\<lambda>c. if c \<in> set cs then r c else PyNone)"

definition select :: "frame \<Rightarrow> string list \<Rightarrow> error + frame" where
  "select df cs =
     (let missing = filter (\<lambda>c. c \<notin> set (columns df)) cs
      in if missing = [] then Inr \<lparr>columns = cs, rows = map (restrict_row cs) (rows df)\<rparr>
         else Inl (KeyError missing))"

text \<open>\<^verbatim>\<open>df[c] = values\<close>: an existing column is overwritten in place, a new one is
  appended.\<close>

definition setcol :: "frame \<Rightarrow> string \<Rightarrow> cell list \<Rightarrow> frame" where
  "setcol df c vals =
     \<lparr>columns = (if c \<in> set (columns df) then columns df else columns df @ [c]),
      rows = map (\<lambda>(r, v). r(c := v)) (zip (rows df) vals)\<rparr>"

text \<open>\<^verbatim>\<open>df[dst] = f(df[src])\<close> for an operation \<open>f\<close> that works cell by cell.\<close>

definition with_column ::
  "string \<Rightarrow> string \<Rightarrow> (cell \<Rightarrow> error + cell) \<Rightarrow> frame \<Rightarrow> error + frame" where
  "with_column dst src f df =
     and_then (getcol df src) (\<lambda>vals.
     and_then (sequence_err (map f vals)) (\<lambda>news.
     Inr (setcol df dst news)))"

text \<open>\<^verbatim>\<open>df[mask]\<close> for a mask computed cell by cell from one column.\<close>

definition filter_rows :: "string \<Rightarrow> (cell \<Rightarrow> error + bool) \<Rightarrow> frame \<Rightarrow> error + frame" where
  "filter_rows src p df =
     and_then (getcol df src) (\<lambda>vals.
     and_then (sequence_err (map p vals)) (\<lambda>mask.
     Inr \<lparr>columns = columns df, rows = map fst (filter snd (zip (rows df) mask))\<rparr>))"

text \<open>
  A cell as a number in an arithmetic operation or a comparison of pandas: a missing
  cell has no value (\<open>None\<close>), a text or a date raises \<^verbatim>\<open>TypeError\<close>.
\<close>

definition num_view :: "cell \<Rightarrow> error + real option" where
  "num_view c =
     (case c of
        Num v \<Rightarrow> Inr (Some v)
      | BoolV b \<Rightarrow> Inr (Some (if b then 1 else 0))
      | PyNone \<Rightarrow> Inr None
      | NaN \<Rightarrow> Inr None
      | Str s \<Rightarrow> Inl TypeError
      | DateV d \<Rightarrow> Inl TypeError)"

subsection \<open>\<^verbatim>\<open>pd.merge(left, right, on=key, how="left", suffixes=(sl, sr))\<close>\<close>

text \<open>
  Keys match when they are equal, a missing key matching a missing key. Every left row
  appears once for each right row with its key, in the order of the right table, and
  once, with missing cells for the right columns, when there is none. A column name
  that both tables have, the key apart, gets the suffix of its side. The key cells of
  one merge are of one kind (the release identifier, a text).
\<close>

definition keys_match :: "cell \<Rightarrow> cell \<Rightarrow> bool" where
  "keys_match a b = (if isna a then isna b else a = b)"

definition left_join :: "string \<Rightarrow> row list \<Rightarrow> row list \<Rightarrow> (row \<times> row option) list" where
  "left_join key ls rs =
     concat (map (\<lambda>l. case filter (\<lambda>r. keys_match (l key) (r key)) rs of
                         [] \<Rightarrow> [(l, None)]
                       | m # ms \<Rightarrow> map (\<lambda>r. (l, Some r)) (m # ms)) ls)"

definition left_names :: "string \<Rightarrow> string \<Rightarrow> string list \<Rightarrow> string list \<Rightarrow> (string \<times> string) list" where
  "left_names key sl lcols rcols =
     map (\<lambda>c. (if c \<noteq> key \<and> c \<in> set rcols then c @ sl else c, c)) lcols"

definition right_names :: "string \<Rightarrow> string \<Rightarrow> string list \<Rightarrow> string list \<Rightarrow> (string \<times> string) list" where
  "right_names key sr lcols rcols =
     map (\<lambda>c. (if c \<in> set lcols then c @ sr else c, c)) (filter (\<lambda>c. c \<noteq> key) rcols)"

text \<open>The merged row: \<open>lns\<close> and \<open>rns\<close> pair each output name with the name in its table.\<close>

definition merged_row ::
  "(string \<times> string) list \<Rightarrow> (string \<times> string) list \<Rightarrow> row \<times> row option \<Rightarrow> row" where
  "merged_row lns rns p =
     (\<lambda>c. case map_of lns c of
             Some c0 \<Rightarrow> fst p c0
           | None \<Rightarrow>
               (case map_of rns c of
                  Some c0 \<Rightarrow> (case snd p of Some r \<Rightarrow> r c0 | None \<Rightarrow> NaN)
                | None \<Rightarrow> PyNone))"

definition pd_merge_left ::
  "frame \<Rightarrow> frame \<Rightarrow> string \<Rightarrow> string \<Rightarrow> string \<Rightarrow> error + frame" where
  "pd_merge_left left right key sl sr =
     (if key \<notin> set (columns left) \<or> key \<notin> set (columns right) then Inl (KeyError [key])
      else let lns = left_names key sl (columns left) (columns right);
               rns = right_names key sr (columns left) (columns right)
           in Inr \<lparr>columns = map fst lns @ map fst rns,
                   rows = map (merged_row lns rns) (left_join key (rows left) (rows right))\<rparr>)"

section \<open>Library functions and configuration\<close>

text \<open>
  Functions of the Python library and of third-party packages that the pipeline calls
  and whose inner working no statement below depends on are parameters of the model:
  the similarity measure \<^verbatim>\<open>rapidfuzz.fuzz.token_sort_ratio\<close>; \<^verbatim>\<open>datetime.strptime\<close>
  followed by \<^verbatim>\<open>.date()\<close> (\<open>None\<close> for \<^verbatim>\<open>ValueError\<close>); the year, the month and the
  text of a date; \<^verbatim>\<open>numpy.log\<close>; \<^verbatim>\<open>str\<close> of a number; \<^verbatim>\<open>int\<close> of a text (\<open>None\<close> for
  \<^verbatim>\<open>ValueError\<close>).
\<close>

record pylib =
  token_sort_ratio :: "string \<Rightarrow> string \<Rightarrow> real"
  strptime :: "string \<Rightarrow> string \<Rightarrow> int option"
  date_year :: "int \<Rightarrow> int"
  date_month :: "int \<Rightarrow> int"
  date_str :: "int \<Rightarrow> string"
  np_log :: "real \<Rightarrow> real"
  str_of_float :: "real \<Rightarrow> string"
  int_of_str :: "string \<Rightarrow> int option"

text \<open>The constants of \<^verbatim>\<open>config.py\<close> that the merge reads; the two dates as
  \<^verbatim>\<open>date.fromisoformat\<close> returns them.\<close>

record config =
  START_DATE :: int
  END_DATE :: int
  MIN_OPENING_THEATERS :: real
  RD_THRESHOLD :: real
  IN_THEATERS_WINDOW_DAYS :: int
  FUZZY_MATCH_ACCEPT_THRESHOLD :: real
  FUZZY_MATCH_REVIEW_THRESHOLD :: real

text \<open>The values of \<^verbatim>\<open>config.py\<close>: 2021-09-01 and 2026-02-07 are the days 738034 and
  739654 of the proleptic Gregorian calendar.\<close>

definition default_config :: config where
  "default_config =
     \<lparr>START_DATE = 738034, END_DATE = 739654, MIN_OPENING_THEATERS = 600,
      RD_THRESHOLD = 60, IN_THEATERS_WINDOW_DAYS = 56,
      FUZZY_MATCH_ACCEPT_THRESHOLD = 85, FUZZY_MATCH_REVIEW_THRESHOLD = 70\<rparr>"

text \<open>Python's truth value of a cell, \<^verbatim>\<open>str(cell)\<close> and \<^verbatim>\<open>int(cell)\<close>.\<close>

definition truthy :: "cell \<Rightarrow> bool" where
  "truthy c =
     (case c of
        PyNone \<Rightarrow> False
      | NaN \<Rightarrow> True
      | Num v \<Rightarrow> v \<noteq> 0
      | Str s \<Rightarrow> s \<noteq> []
      | DateV d \<Rightarrow> True
      | BoolV b \<Rightarrow> b)"

definition py_str :: "pylib \<Rightarrow> cell \<Rightarrow> string" where
  "py_str lib c =
     (case c of
        PyNone \<Rightarrow> ''None''
      | NaN \<Rightarrow> ''nan''
      | Num v \<Rightarrow> str_of_float lib v
      | Str s \<Rightarrow> s
      | DateV d \<Rightarrow> date_str lib d
      | BoolV b \<Rightarrow> if b then ''True'' else ''False'')"

definition py_int :: "pylib \<Rightarrow> cell \<Rightarrow> error + int" where
  "py_int lib c =
     (case c of
        PyNone \<Rightarrow> Inl TypeError
      | NaN \<Rightarrow> Inl ValueError
      | Num v \<Rightarrow> Inr (if 0 \<le> v then \<lfloor>v\<rfloor> else \<lceil>v\<rceil>)
      | Str s \<Rightarrow> (case int_of_str lib s of None \<Rightarrow> Inl ValueError | Some n \<Rightarrow> Inr n)
      | DateV d \<Rightarrow> Inl TypeError
      | BoolV b \<Rightarrow> Inr (if b then 1 else 0))"

text \<open>The decimal text of an integer, as an f-string writes it.\<close>

fun show_nat :: "nat \<Rightarrow> string" where
  "show_nat n =
     (if n < 10 then [''0123456789'' ! n]
      else show_nat (n div 10) @ [''0123456789'' ! (n mod 10)])"

declare show_nat.simps [simp del]

definition show_int :: "int \<Rightarrow> string" where
  "show_int i = (if i < 0 then CHR ''-'' # show_nat (nat (- i)) else show_nat (nat i))"

section \<open>Dates (utils.parse\_date)\<close>

definition date_formats :: "string list" where
  "date_formats = [''%b %d, %Y'', ''%B %d, %Y'', ''%Y-%m-%d'', ''%m/%d/%Y'']"

fun first_format :: "pylib \<Rightarrow> string \<Rightarrow> string list \<Rightarrow> int option" where
  "first_format lib text [] = None"
| "first_format lib text (fmt # fmts) =
     (case strptime lib text fmt of Some d \<Rightarrow> Some d | None \<Rightarrow> first_format lib text fmts)"

definition parse_date :: "pylib \<Rightarrow> string \<Rightarrow> int option" where
  "parse_date lib text = (if text = [] then None else first_format lib (strip text) date_formats)"

section \<open>The merge (05\_merge\_datasets.py)\<close>

subsection \<open>load\_raw\_data\<close>

text \<open>The files are a map from paths to the tables that \<^verbatim>\<open>pd.read_csv\<close> reads from them;
  a path with no file raises \<^verbatim>\<open>FileNotFoundError\<close>.\<close>

definition read_csv :: "(string \<rightharpoonup> frame) \<Rightarrow> string \<Rightarrow> error + frame" where
  "read_csv fs path = (case fs path of None \<Rightarrow> Inl (FileNotFoundError path) | Some df \<Rightarrow> Inr df)"

definition load_raw_data :: "(string \<rightharpoonup> frame) \<Rightarrow> error + (frame \<times> frame \<times> frame \<times> frame)" where
  "load_raw_data fs =
     and_then (read_csv fs ''data/raw/bom_index.csv'') (\<lambda>bom_index.
     and_then (read_csv fs ''data/raw/bom_details.csv'') (\<lambda>bom_details.
     and_then (read_csv fs ''data/raw/rt_scores.csv'') (\<lambda>rt_scores.
     and_then (read_csv fs ''data/raw/the_numbers_budgets.csv'') (\<lambda>tn_budgets.
     Inr (bom_index, bom_details, rt_scores, tn_budgets)))))"

subsection \<open>merge\_bom\<close>

definition index_cols :: "string list" where
  "index_cols = [''bom_release_id'', ''title'', ''total_gross'', ''max_theaters'',
                 ''release_date_raw'', ''bom_year'', ''distributor'', ''release_url'']"

definition detail_cols :: "string list" where
  "detail_cols = [''bom_release_id'', ''opening_wknd_gross'', ''opening_wknd_theaters'',
                  ''widest_release'', ''domestic_gross'', ''mpaa_rating'', ''genres'',
                  ''release_date'', ''distributor'']"

definition keep_cols :: "string list" where
  "keep_cols = [''bom_release_id'', ''title'', ''release_date_parsed'', ''bom_year'',
                ''opening_wknd_gross'', ''opening_wknd_theaters'', ''domestic_gross'',
                ''widest_release'', ''max_theaters'', ''distributor'', ''mpaa_rating'',
                ''genres'']"

text \<open>The inner function \<^verbatim>\<open>resolve_release_date\<close>, applied to each merged row. A date
  is always truthy, so \<^verbatim>\<open>if d\<close> tests that the parse succeeded.\<close>

definition resolve_release_date :: "pylib \<Rightarrow> row \<Rightarrow> error + cell" where
  "resolve_release_date lib r =
     (case (if \<not> isna (r ''release_date'') then parse_date lib (py_str lib (r ''release_date''))
            else None) of
        Some d \<Rightarrow> Inr (DateV d)
      | None \<Rightarrow>
          if \<not> isna (r ''release_date_raw'') \<and> \<not> isna (r ''bom_year'') then
            and_then (py_int lib (r ''bom_year'')) (\<lambda>year.
              case parse_date lib (strip (py_str lib (r ''release_date_raw'')) @ '', '' @ show_int year) of
                Some d \<Rightarrow> Inr (DateV d)
              | None \<Rightarrow> Inr PyNone)
          else Inr PyNone)"

text \<open>The merged table before the fallbacks: the two column selections, in the order
  in which Python evaluates them, and the left join with its suffixes.\<close>

definition bom_joined :: "frame \<Rightarrow> frame \<Rightarrow> error + frame" where
  "bom_joined bom_index bom_details =
     and_then (select bom_index index_cols) (\<lambda>l.
     and_then (select bom_details detail_cols) (\<lambda>r.
     pd_merge_left l r ''bom_release_id'' ''_index'' ''_detail''))"

definition merge_bom :: "pylib \<Rightarrow> frame \<Rightarrow> frame \<Rightarrow> error + frame" where
  "merge_bom lib bom_index bom_details =
     and_then (bom_joined bom_index bom_details) (\<lambda>bom.
     and_then (with_column ''title'' ''title'' Inr bom) (\<lambda>bom.
     and_then (getcol bom ''domestic_gross'') (\<lambda>detail_gross.
     and_then (getcol bom ''total_gross'') (\<lambda>total_gross.
     let bom = setcol bom ''domestic_gross'' (map (\<lambda>(a, b). fillna a b) (zip detail_gross total_gross)) in
     and_then (getcol bom ''distributor_detail'') (\<lambda>distributor_detail.
     and_then (getcol bom ''distributor_index'') (\<lambda>distributor_index.
     let bom = setcol bom ''distributor''
                 (map (\<lambda>(a, b). fillna a b) (zip distributor_detail distributor_index)) in
     and_then (sequence_err (map (resolve_release_date lib) (rows bom))) (\<lambda>dates.
     let bom = setcol bom ''release_date_parsed'' dates in
     select bom (filter (\<lambda>c. c \<in> set (columns bom)) keep_cols))))))))"

subsection \<open>merge\_rt\<close>

definition rt_cols :: "string list" where
  "rt_cols = [''bom_release_id'', ''tomatometer'', ''audience_score'', ''critic_count'',
              ''audience_count'', ''rt_genres'', ''rt_rating'', ''match_method'', ''rt_url'',
              ''rt_title'']"

text \<open>The selection of the review columns keeps those of \<open>rt_cols\<close> that the review
  table has and cannot raise. The two column reads at the end are those of the log
  message.\<close>

definition rt_joined :: "frame \<Rightarrow> frame \<Rightarrow> error + frame" where
  "rt_joined bom rt_scores =
     and_then (select rt_scores (filter (\<lambda>c. c \<in> set (columns rt_scores)) rt_cols)) (\<lambda>rt_subset.
     pd_merge_left bom rt_subset ''bom_release_id'' ''_x'' ''_y'')"

definition merge_rt :: "frame \<Rightarrow> frame \<Rightarrow> error + frame" where
  "merge_rt bom rt_scores =
     and_then (rt_joined bom rt_scores) (\<lambda>merged.
     and_then (if ''rt_rating'' \<in> set (columns merged) then
                 and_then (getcol merged ''mpaa_rating'') (\<lambda>mpaa.
                 and_then (getcol merged ''rt_rating'') (\<lambda>rt.
                 Inr (setcol merged ''mpaa_rating'' (map (\<lambda>(a, b). fillna a b) (zip mpaa rt)))))
               else Inr merged) (\<lambda>merged.
     and_then (getcol merged ''tomatometer'') (\<lambda>tm.
     and_then (getcol merged ''audience_score'') (\<lambda>au.
     Inr merged))))"

subsection \<open>fuzzy\_match\_budgets\<close>

text \<open>The dictionary that the loop appends for one row.\<close>

record match_result =
  tn_title_matched :: cell
  tn_match_score :: cell
  production_budget :: cell
  tn_domestic_gross :: cell
  tn_match_status :: cell

definition unmatched_result :: match_result where
  "unmatched_result =
     \<lparr>tn_title_matched = PyNone, tn_match_score = Num 0, production_budget = PyNone,
      tn_domestic_gross = PyNone, tn_match_status = Str ''unmatched''\<rparr>"

text \<open>\<^verbatim>\<open>normalize_title\<close> applied to a cell: a falsy cell gives the empty text, any other
  cell that is not a text has no method \<^verbatim>\<open>lower\<close>.\<close>

definition normalize_title_cell :: "cell \<Rightarrow> error + string" where
  "normalize_title_cell c =
     (if \<not> truthy c then Inr []
      else case c of Str s \<Rightarrow> Inr (normalize_title s) | _ \<Rightarrow> Inl AttributeError)"

text \<open>\<^verbatim>\<open>lambda d: d.year if d else None\<close>.\<close>

definition year_of_cell :: "pylib \<Rightarrow> cell \<Rightarrow> error + int option" where
  "year_of_cell lib c =
     (if \<not> truthy c then Inr None
      else case c of DateV d \<Rightarrow> Inr (Some (date_year lib d)) | _ \<Rightarrow> Inl AttributeError)"

definition year_cell :: "int option \<Rightarrow> cell" where
  "year_cell y = (case y of None \<Rightarrow> PyNone | Some n \<Rightarrow> Num (real_of_int n))"

text \<open>The budget table as the loop uses it: the normalized titles are computed when
  the table has none; the second test reads the column that it has just found absent,
  which raises \<^verbatim>\<open>KeyError\<close>.\<close>

definition prepare_tn :: "frame \<Rightarrow> error + frame" where
  "prepare_tn tn_df =
     and_then (if ''title_normalized'' \<notin> set (columns tn_df) then
                 and_then (getcol tn_df ''title'') (\<lambda>titles.
                 and_then (sequence_err (map normalize_title_cell titles)) (\<lambda>norms.
                 Inr (setcol tn_df ''title_normalized'' (map Str norms))))
               else Inr tn_df) (\<lambda>tn.
     if ''release_year'' \<notin> set (columns tn) then Inl (KeyError [''release_year''])
     else Inr tn)"

text \<open>Year blocking: \<^verbatim>\<open>tn_df["release_year"].between(y - 1, y + 1)\<close>, both ends
  included, false for a missing year. The target year blocks when it is truthy and not
  missing, that is, a number other than zero.\<close>

definition in_year_block :: "int \<Rightarrow> cell \<Rightarrow> error + bool" where
  "in_year_block y c =
     and_then (num_view c) (\<lambda>v.
       Inr (case v of None \<Rightarrow> False
            | Some x \<Rightarrow> real_of_int (y - 1) \<le> x \<and> x \<le> real_of_int (y + 1)))"

definition candidates_for :: "frame \<Rightarrow> int option \<Rightarrow> error + row list" where
  "candidates_for tn bom_year =
     (case bom_year of
        None \<Rightarrow> Inr (rows tn)
      | Some y \<Rightarrow>
          if y \<noteq> 0 then
            and_then (sequence_err (map (\<lambda>r. in_year_block y (r ''release_year'')) (rows tn)))
              (\<lambda>mask. Inr (map fst (filter snd (zip (rows tn) mask))))
          else Inr (rows tn))"

text \<open>
  \<^verbatim>\<open>rapidfuzz.process.extractOne(query, choices, scorer=..., score_cutoff=0)\<close>: the
  choices are scored in order; a missing choice is skipped; a choice replaces the best
  one so far when its score is at least the cutoff and strictly greater than the best
  score, so that the first of several equal scores wins; the scan stops at the optimal
  score 100. The result is the choice, its score and its position, or \<^verbatim>\<open>None\<close> when
  every choice is missing.
\<close>

fun extract_loop ::
  "(string \<Rightarrow> string \<Rightarrow> real) \<Rightarrow> string \<Rightarrow> (nat \<times> cell) list \<Rightarrow> (string \<times> real \<times> nat) option
     \<Rightarrow> error + (string \<times> real \<times> nat) option" where
  "extract_loop scorer query [] best = Inr best"
| "extract_loop scorer query ((i, choice) # rest) best =
     (if isna choice then extract_loop scorer query rest best
      else case choice of
             Str c \<Rightarrow>
               (let score = scorer query c;
                    best' = (if 0 \<le> score \<and> (case best of None \<Rightarrow> True | Some (t, b, k) \<Rightarrow> b < score)
                             then Some (c, score, i) else best)
                in if score = 100 then Inr best' else extract_loop scorer query rest best')
           | _ \<Rightarrow> Inl TypeError)"

definition extractOne ::
  "(string \<Rightarrow> string \<Rightarrow> real) \<Rightarrow> string \<Rightarrow> cell list \<Rightarrow> error + (string \<times> real \<times> nat) option" where
  "extractOne scorer query choices = extract_loop scorer query (enumerate 0 choices) None"

text \<open>The classification of a score against the two thresholds of the configuration.\<close>

definition match_status :: "config \<Rightarrow> real \<Rightarrow> string" where
  "match_status cfg score =
     (if FUZZY_MATCH_ACCEPT_THRESHOLD cfg \<le> score then ''matched''
      else if FUZZY_MATCH_REVIEW_THRESHOLD cfg \<le> score then ''review''
      else ''unmatched'')"

text \<open>\<^verbatim>\<open>tn_row.get(c)\<close> is \<^verbatim>\<open>None\<close> for a column that the budget table does not have, where
  \<^verbatim>\<open>tn_row[c]\<close> raises \<^verbatim>\<open>KeyError\<close>.\<close>

definition row_get :: "frame \<Rightarrow> row \<Rightarrow> string \<Rightarrow> cell" where
  "row_get df r c = (if c \<in> set (columns df) then r c else PyNone)"

definition row_item :: "frame \<Rightarrow> row \<Rightarrow> string \<Rightarrow> error + cell" where
  "row_item df r c = (if c \<in> set (columns df) then Inr (r c) else Inl (KeyError [c]))"

text \<open>The body of the loop, for the normalized title and the release year of one row
  of the box-office table.\<close>

definition match_row ::
  "pylib \<Rightarrow> config \<Rightarrow> frame \<Rightarrow> string \<Rightarrow> int option \<Rightarrow> error + match_result" where
  "match_row lib cfg tn bom_title bom_year =
     (if bom_title = [] then Inr unmatched_result
      else
        and_then (candidates_for tn bom_year) (\<lambda>candidates.
        if candidates = [] then Inr unmatched_result
        else
          and_then (extractOne (token_sort_ratio lib) bom_title
                      (map (\<lambda>r. r ''title_normalized'') candidates)) (\<lambda>result.
          case result of
            None \<Rightarrow> Inr unmatched_result
          | Some (matched_title_norm, score, match_idx) \<Rightarrow>
              if match_idx < length candidates then
                (let tn_row = candidates ! match_idx in
                 and_then (row_item tn tn_row ''title'') (\<lambda>title.
                 Inr \<lparr>tn_title_matched = title,
                      tn_match_score = Num score,
                      production_budget = row_get tn tn_row ''production_budget'',
                      tn_domestic_gross = row_get tn tn_row ''domestic_gross'',
                      tn_match_status = Str (match_status cfg score)\<rparr>))
              else Inl IndexError)))"

definition budget_cols :: "string list" where
  "budget_cols = [''tn_title_matched'', ''tn_match_score'', ''production_budget'',
                  ''tn_domestic_gross'', ''tn_match_status'']"

text \<open>The five assignments \<^verbatim>\<open>bom_df[col] = match_df[col]\<close>. With no row at all the list
  of results is empty, the table made of it has no column, and \<^verbatim>\<open>set_index("idx")\<close>
  raises \<^verbatim>\<open>KeyError\<close>.\<close>

definition attach_results :: "frame \<Rightarrow> match_result list \<Rightarrow> frame" where
  "attach_results df results =
     setcol (setcol (setcol (setcol (setcol df
       ''tn_title_matched'' (map tn_title_matched results))
       ''tn_match_score'' (map tn_match_score results))
       ''production_budget'' (map production_budget results))
       ''tn_domestic_gross'' (map tn_domestic_gross results))
       ''tn_match_status'' (map tn_match_status results)"

definition fuzzy_match_budgets :: "pylib \<Rightarrow> config \<Rightarrow> frame \<Rightarrow> frame \<Rightarrow> error + frame" where
  "fuzzy_match_budgets lib cfg bom_df tn_df =
     and_then (getcol bom_df ''title'') (\<lambda>titles.
     and_then (sequence_err (map normalize_title_cell titles)) (\<lambda>norms.
     let bom1 = setcol bom_df ''title_norm'' (map Str norms) in
     and_then (getcol bom1 ''release_date_parsed'') (\<lambda>dates.
     and_then (sequence_err (map (year_of_cell lib) dates)) (\<lambda>years.
     let bom2 = setcol bom1 ''release_year'' (map year_cell years) in
     and_then (prepare_tn tn_df) (\<lambda>tn.
     and_then (sequence_err (map (\<lambda>(t, y). match_row lib cfg tn t y) (zip norms years)))
       (\<lambda>results.
     if results = [] then Inl (KeyError [''idx''])
     else Inr (attach_results bom2 results)))))))"

subsection \<open>apply\_study\_filters\<close>

text \<open>\<^verbatim>\<open>d is not None and start <= d <= end\<close>: a date cannot be compared with a cell of
  another kind.\<close>

definition in_window :: "config \<Rightarrow> cell \<Rightarrow> error + bool" where
  "in_window cfg c =
     (case c of
        PyNone \<Rightarrow> Inr False
      | DateV d \<Rightarrow> Inr (START_DATE cfg \<le> d \<and> d \<le> END_DATE cfg)
      | _ \<Rightarrow> Inl TypeError)"

definition wide_release :: "config \<Rightarrow> cell \<Rightarrow> error + bool" where
  "wide_release cfg c =
     and_then (num_view c) (\<lambda>v.
       Inr (case v of None \<Rightarrow> False | Some x \<Rightarrow> MIN_OPENING_THEATERS cfg \<le> x))"

definition apply_study_filters :: "config \<Rightarrow> frame \<Rightarrow> error + frame" where
  "apply_study_filters cfg df =
     and_then (filter_rows ''release_date_parsed'' (in_window cfg) df)
       (filter_rows ''opening_wknd_theaters'' (wide_release cfg))"

subsection \<open>construct\_rdd\_variables\<close>

text \<open>\<^verbatim>\<open>df[c] - threshold\<close>: NaN for a missing score.\<close>

definition centered :: "config \<Rightarrow> cell \<Rightarrow> error + cell" where
  "centered cfg c =
     and_then (num_view c) (\<lambda>v.
       Inr (case v of None \<Rightarrow> NaN | Some x \<Rightarrow> Num (x - RD_THRESHOLD cfg)))"

text \<open>\<^verbatim>\<open>(df[c] >= threshold).astype("Int64")\<close>: the comparison gives a boolean for every
  row, \<^verbatim>\<open>False\<close> for a missing score, and the conversion turns it into 0 or 1.\<close>

definition is_fresh :: "config \<Rightarrow> cell \<Rightarrow> error + cell" where
  "is_fresh cfg c =
     and_then (num_view c) (\<lambda>v.
       let b = (case v of None \<Rightarrow> False | Some x \<Rightarrow> RD_THRESHOLD cfg \<le> x)
       in Inr (Num (if b then 1 else 0)))"

text \<open>\<^verbatim>\<open>np.log(df[c].clip(lower=1).astype(float))\<close>: NaN for a missing value.\<close>

definition log_floored :: "pylib \<Rightarrow> cell \<Rightarrow> error + cell" where
  "log_floored lib c =
     and_then (num_view c) (\<lambda>v.
       Inr (case v of None \<Rightarrow> NaN | Some x \<Rightarrow> Num (np_log lib (max x 1))))"

text \<open>\<^verbatim>\<open>np.where(df[c].notna() & (df[c] > 0), np.log(df[c].clip(lower=1).astype(float)),
  np.nan)\<close>.\<close>

definition log_budget_of :: "pylib \<Rightarrow> cell \<Rightarrow> error + cell" where
  "log_budget_of lib c =
     and_then (num_view c) (\<lambda>v.
       Inr (case v of
              None \<Rightarrow> NaN
            | Some x \<Rightarrow> if 0 < x then Num (np_log lib (max x 1)) else NaN))"

definition year_column :: "pylib \<Rightarrow> cell \<Rightarrow> error + cell" where
  "year_column lib c = and_then (year_of_cell lib c) (\<lambda>y. Inr (year_cell y))"

definition month_column :: "pylib \<Rightarrow> cell \<Rightarrow> error + cell" where
  "month_column lib c =
     (if \<not> truthy c then Inr PyNone
      else case c of DateV d \<Rightarrow> Inr (Num (real_of_int (date_month lib d)))
           | _ \<Rightarrow> Inl AttributeError)"

text \<open>\<^verbatim>\<open>d is not None and d >= cutoff\<close>, the cutoff being the end date less the window.\<close>

definition in_theaters_of :: "config \<Rightarrow> cell \<Rightarrow> error + cell" where
  "in_theaters_of cfg c =
     (case c of
        PyNone \<Rightarrow> Inr (BoolV False)
      | DateV d \<Rightarrow> Inr (BoolV (END_DATE cfg - IN_THEATERS_WINDOW_DAYS cfg \<le> d))
      | _ \<Rightarrow> Inl TypeError)"

text \<open>A sequence of column assignments \<^verbatim>\<open>df[dst] = f(df[src])\<close>, run in order.\<close>

fun derive_all ::
  "(string \<times> string \<times> (cell \<Rightarrow> error + cell)) list \<Rightarrow> frame \<Rightarrow> error + frame" where
  "derive_all [] df = Inr df"
| "derive_all ((dst, src, f) # specs) df = and_then (with_column dst src f df) (derive_all specs)"

definition rdd_variables :: "pylib \<Rightarrow> config \<Rightarrow> (string \<times> string \<times> (cell \<Rightarrow> error + cell)) list" where
  "rdd_variables lib cfg =
     [(''tomatometer_centered'', ''tomatometer'', centered cfg),
      (''audience_score_centered'', ''audience_score'', centered cfg),
      (''is_fresh_critic'', ''tomatometer'', is_fresh cfg),
      (''is_fresh_audience'', ''audience_score'', is_fresh cfg),
      (''log_opening_gross'', ''opening_wknd_gross'', log_floored lib),
      (''log_total_gross'', ''domestic_gross'', log_floored lib),
      (''log_theaters'', ''opening_wknd_theaters'', log_floored lib),
      (''log_budget'', ''production_budget'', log_budget_of lib),
      (''release_year'', ''release_date_parsed'', year_column lib),
      (''release_month'', ''release_date_parsed'', month_column lib),
      (''in_theaters'', ''release_date_parsed'', in_theaters_of cfg)]"

definition construct_rdd_variables :: "pylib \<Rightarrow> config \<Rightarrow> frame \<Rightarrow> error + frame" where
  "construct_rdd_variables lib cfg df = derive_all (rdd_variables lib cfg) df"

subsection \<open>merge\_datasets\<close>

definition output_cols :: "string list" where
  "output_cols = [''bom_release_id'', ''title'', ''release_date'', ''release_year'',
     ''release_month'', ''distributor'', ''mpaa_rating'', ''genres'', ''rt_genres'',
     ''opening_wknd_gross'', ''opening_wknd_theaters'', ''domestic_gross'',
     ''widest_release'', ''max_theaters'', ''production_budget'',
     ''tomatometer'', ''audience_score'', ''critic_count'', ''audience_count'',
     ''is_fresh_critic'', ''is_fresh_audience'',
     ''tomatometer_centered'', ''audience_score_centered'',
     ''log_opening_gross'', ''log_total_gross'', ''log_theaters'', ''log_budget'',
     ''in_theaters'', ''match_method'', ''tn_match_score'', ''tn_match_status'']"

text \<open>\<^verbatim>\<open>lambda d: str(d) if d else None\<close>.\<close>

definition release_date_text :: "pylib \<Rightarrow> cell \<Rightarrow> error + cell" where
  "release_date_text lib c = Inr (if truthy c then Str (py_str lib c) else PyNone)"

text \<open>The pipeline up to the table that is written to \<^verbatim>\<open>merged_dataset.csv\<close>. The
  diagnostics table is made of the same final table afterwards and reads optional
  columns only.\<close>

definition merge_datasets :: "pylib \<Rightarrow> config \<Rightarrow> (string \<rightharpoonup> frame) \<Rightarrow> error + frame" where
  "merge_datasets lib cfg fs =
     and_then (load_raw_data fs) (\<lambda>(bom_index, bom_details, rt_scores, tn_budgets).
     and_then (merge_bom lib bom_index bom_details) (\<lambda>bom.
     and_then (merge_rt bom rt_scores) (\<lambda>bom_rt.
     and_then (fuzzy_match_budgets lib cfg bom_rt tn_budgets) (\<lambda>full.
     and_then (apply_study_filters cfg full) (\<lambda>filtered.
     and_then (construct_rdd_variables lib cfg filtered) (\<lambda>final.
     and_then (with_column ''release_date'' ''release_date_parsed'' (release_date_text lib) final)
       (\<lambda>final.
     select final (filter (\<lambda>c. c \<in> set (columns final)) output_cols))))))))"

section \<open>Auxiliary notions for the proofs\<close>

text \<open>A sequence of column assignments, and the columns that the budget stage
  assigns, in the order of the assignments.\<close>

definition setcols :: "(string \<times> cell list) list \<Rightarrow> frame \<Rightarrow> frame" where
  "setcols l df = fold (\<lambda>(c, v) d. setcol d c v) l df"

definition stage_cols :: "string list" where
  "stage_cols = ''title_norm'' # ''release_year'' # budget_cols"

text \<open>
  The key of a row as the merge compares it (every missing key is the same key), and
  the tables in which no two rows have the same key. \<open>detail_cell d c\<close> is the cell of
  column \<open>c\<close> that the left join attaches from the matching right row \<open>d\<close>, NaN when there
  is none.
\<close>

definition norm_key :: "cell \<Rightarrow> cell" where
  "norm_key c = (if isna c then NaN else c)"

definition unique_keys :: "string \<Rightarrow> frame \<Rightarrow> bool" where
  "unique_keys key df = distinct (map (\<lambda>r. norm_key (r key)) (rows df))"

definition detail_cell :: "row option \<Rightarrow> string \<Rightarrow> cell" where
  "detail_cell d c = (case d of None \<Rightarrow> NaN | Some r \<Rightarrow> r c)"

text \<open>The columns of the joined box-office table, and its row for a pair of the left
  join of the two input tables.\<close>

definition joined_cols :: "string list" where
  "joined_cols = [''bom_release_id'', ''title'', ''total_gross'', ''max_theaters'',
     ''release_date_raw'', ''bom_year'', ''distributor_index'', ''release_url'',
     ''opening_wknd_gross'', ''opening_wknd_theaters'', ''widest_release'', ''domestic_gross'',
     ''mpaa_rating'', ''genres'', ''release_date'', ''distributor_detail'']"

definition bom_merged :: "row \<times> row option \<Rightarrow> row" where
  "bom_merged p =
     merged_row (left_names ''bom_release_id'' ''_index'' index_cols detail_cols)
                (right_names ''bom_release_id'' ''_detail'' index_cols detail_cols)
                (restrict_row index_cols (fst p), map_option (restrict_row detail_cols) (snd p))"

section \<open>Example inputs\<close>

text \<open>
  Concrete tables on which the statements below are evaluated. \<open>row_of\<close> makes a row of
  a list of pairs. \<open>example_lib\<close> gives the library functions at the arguments that the
  examples reach: the similarity of two equal texts is 100; \<^verbatim>\<open>"Mar 4, 2022"\<close> read with
  the format \<^verbatim>\<open>"%b %d, %Y"\<close> is the day 738218, whose year is 2022, whose month is 3 and
  whose text is \<^verbatim>\<open>"2022-03-04"\<close>; \<^verbatim>\<open>"Jul 18, 2025"\<close> is the day 739450, in the year 2025
  and the month 7.
\<close>

definition row_of :: "(string \<times> cell) list \<Rightarrow> row" where
  "row_of al = (\<lambda>c. case map_of al c of Some v \<Rightarrow> v | None \<Rightarrow> PyNone)"

definition example_lib :: pylib where
  "example_lib =
     \<lparr>token_sort_ratio = (\<lambda>a b. if a = b then 100 else 0),
      strptime = (\<lambda>text fmt. if fmt = ''%b %d, %Y'' \<and> text = ''Mar 4, 2022'' then Some 738218
                               else if fmt = ''%b %d, %Y'' \<and> text = ''Jul 18, 2025'' then Some 739450
                               else None),
      date_year = (\<lambda>d. if d = 739450 then 2025 else 2022),
      date_month = (\<lambda>d. if d = 739450 then 7 else 3),
      date_str = (\<lambda>d. if d = 739450 then ''2025-07-18'' else ''2022-03-04''),
      np_log = ln,
      str_of_float = (\<lambda>x. ''2022.0''),
      int_of_str = (\<lambda>s. None)\<rparr>"

definition tn_example :: frame where
  "tn_example =
     \<lparr>columns = [''title'', ''release_year'', ''production_budget'', ''domestic_gross'',
                 ''title_normalized''],
      rows = [row_of [(''title'', Str ''The Batman''), (''release_year'', Num 2022),
                      (''production_budget'', Num 185000000),
                      (''domestic_gross'', Num 369345583),
                      (''title_normalized'', Str ''batman'')]]\<rparr>"

definition batman_match :: "string \<Rightarrow> match_result" where
  "batman_match status =
     \<lparr>tn_title_matched = Str ''The Batman'', tn_match_score = Num 100,
      production_budget = Num 185000000, tn_domestic_gross = Num 369345583,
      tn_match_status = Str status\<rparr>"

text \<open>Three films after the filters: the first has no critic score and no budget, the
  second a critic score at the cutoff and a budget of zero, the third a critic score just
  below the cutoff, an opening gross of zero and a positive budget.\<close>

definition films_example :: frame where
  "films_example =
     \<lparr>columns = [''tomatometer'', ''audience_score'', ''opening_wknd_gross'',
                 ''domestic_gross'', ''opening_wknd_theaters'', ''production_budget'',
                 ''release_date_parsed''],
      rows = [row_of [(''tomatometer'', NaN), (''audience_score'', Num 71),
                      (''opening_wknd_gross'', Num 134008624), (''domestic_gross'', Num 369345583),
                      (''opening_wknd_theaters'', Num 4417), (''production_budget'', NaN),
                      (''release_date_parsed'', DateV 738218)],
              row_of [(''tomatometer'', Num 60), (''audience_score'', NaN),
                      (''opening_wknd_gross'', Num 1000), (''domestic_gross'', Num 2000),
                      (''opening_wknd_theaters'', Num 700), (''production_budget'', Num 0),
                      (''release_date_parsed'', DateV 738218)],
              row_of [(''tomatometer'', Num 59), (''audience_score'', Num 60),
                      (''opening_wknd_gross'', Num 0), (''domestic_gross'', Num 5),
                      (''opening_wknd_theaters'', Num 600), (''production_budget'', Num 2500000),
                      (''release_date_parsed'', DateV 738218)]]\<rparr>"

text \<open>A box-office table of one film, as the budget matcher receives it.\<close>

definition bom_example :: frame where
  "bom_example =
     \<lparr>columns = [''title'', ''release_date_parsed''],
      rows = [row_of [(''title'', Str ''The Batman''), (''release_date_parsed'', DateV 738218)]]\<rparr>"

text \<open>
  The four input tables. The listing has two films; the detail table has the first
  only, with no distributor; the review table has the first only, and of the review
  columns it has the key and the two scores only; the budget table is \<open>tn_example\<close>.
  \<open>rt_duplicate_example\<close> is a review table with two rows for the first film.
\<close>

definition bom_index_example :: frame where
  "bom_index_example =
     \<lparr>columns = index_cols,
      rows = [row_of [(''bom_release_id'', Str ''rl1''), (''title'', Str ''The Batman''),
                      (''total_gross'', Num 369345583), (''max_theaters'', Num 4417),
                      (''release_date_raw'', Str ''Mar 4''), (''bom_year'', Num 2022),
                      (''distributor'', Str ''Warner Bros.''), (''release_url'', Str ''/release/rl1/'')],
              row_of [(''bom_release_id'', Str ''rl2''), (''title'', Str ''Smurfs''),
                      (''total_gross'', Num 11000000), (''max_theaters'', Num 3504),
                      (''release_date_raw'', Str ''Jul 18''), (''bom_year'', Num 2025),
                      (''distributor'', Str ''Paramount''), (''release_url'', Str ''/release/rl2/'')]]\<rparr>"

definition bom_details_example :: frame where
  "bom_details_example =
     \<lparr>columns = detail_cols,
      rows = [row_of [(''bom_release_id'', Str ''rl1''), (''opening_wknd_gross'', Num 134008624),
                      (''opening_wknd_theaters'', Num 4417), (''widest_release'', Num 4417),
                      (''domestic_gross'', Num 369345583), (''mpaa_rating'', Str ''PG-13''),
                      (''genres'', Str ''Action''), (''release_date'', Str ''Mar 4, 2022''),
                      (''distributor'', NaN)]]\<rparr>"

definition rt_scores_example :: frame where
  "rt_scores_example =
     \<lparr>columns = [''bom_release_id'', ''tomatometer'', ''audience_score''],
      rows = [row_of [(''bom_release_id'', Str ''rl1''), (''tomatometer'', Num 85),
                      (''audience_score'', Num 87)]]\<rparr>"

definition rt_duplicate_example :: frame where
  "rt_duplicate_example =
     \<lparr>columns = [''bom_release_id'', ''tomatometer'', ''audience_score''],
      rows = [row_of [(''bom_release_id'', Str ''rl1''), (''tomatometer'', Num 85),
                      (''audience_score'', Num 87)],
              row_of [(''bom_release_id'', Str ''rl1''), (''tomatometer'', Num 84),
                      (''audience_score'', Num 87)]]\<rparr>"

definition files_example :: "string \<rightharpoonup> frame" where
  "files_example =
     [''data/raw/bom_index.csv'' \<mapsto> bom_index_example,
      ''data/raw/bom_details.csv'' \<mapsto> bom_details_example,
      ''data/raw/rt_scores.csv'' \<mapsto> rt_scores_example,
      ''data/raw/the_numbers_budgets.csv'' \<mapsto> tn_example]"

text \<open>A box-office table whose only film has no title: \<^verbatim>\<open>read_csv\<close> reads an empty
  title cell as NaN.\<close>

definition bom_nan_title_example :: frame where
  "bom_nan_title_example =
     \<lparr>columns = [''title'', ''release_date_parsed''],
      rows = [row_of [(''title'', NaN), (''release_date_parsed'', DateV 738218)]]\<rparr>"

section \<open>Properties of title normalization\<close>

lemma lower_char_idem: "lower_char (lower_char c) = lower_char c"
  by (simp add: lower_char_def Let_def)

lemma norm_char_space: "norm_char c \<Longrightarrow> is_space c = (c = CHR '' '')"
  by (auto simp add: norm_char_def is_space_def is_word_def Let_def)

lemma lower_char_space: "lower_char CHR '' '' = CHR '' ''"
  by (simp add: lower_char_def)

lemma not_word_special: "\<not> is_word CHR ''(''" "\<not> is_word CHR ''&''" "\<not> is_word CHR '' ''"
  by (simp_all add: is_word_def)

lemma norm_char_lower: "norm_char c \<Longrightarrow> lower_char c = c"
  using lower_char_space by (auto simp add: norm_char_def)

lemma norm_char_not_special: "norm_char c \<Longrightarrow> c \<noteq> CHR ''('' \<and> c \<noteq> CHR ''&''"
  using not_word_special by (auto simp add: norm_char_def)

lemma norm_char_keep: "norm_char c \<Longrightarrow> is_word c \<or> is_space c"
  by (auto simp add: norm_char_def is_space_def)

lemma py_lower_clean: "list_all norm_char t \<Longrightarrow> py_lower t = t"
  by (induction t) (simp_all add: py_lower_def norm_char_lower)

lemma sub_parens_clean: "list_all norm_char t \<Longrightarrow> sub_parens False t = t"
  by (induction t) (simp_all add: norm_char_not_special)

lemma replace_char_clean: "list_all norm_char t \<Longrightarrow> replace_char CHR ''&'' ''and'' t = t"
  by (induction t) (simp_all add: replace_char_def norm_char_not_special)

lemma remove_punct_clean: "list_all norm_char t \<Longrightarrow> remove_punct t = t"
  by (induction t) (auto simp add: remove_punct_def dest: norm_char_keep)

lemma sub_ws_clean:
  "list_all norm_char t \<Longrightarrow> single_spaced t \<Longrightarrow>
     sub_ws False t = t \<and> ((t = [] \<or> hd t \<noteq> CHR '' '') \<longrightarrow> sub_ws True t = t)"
proof (induction t rule: single_spaced.induct)
  case 1
  then show ?case by simp
next
  case (2 c)
  then show ?case by (simp add: norm_char_space)
next
  case (3 c d r)
  then show ?case by (simp add: norm_char_space)
qed

lemma strip_trimmed: "list_all norm_char t \<Longrightarrow> trimmed t \<Longrightarrow> strip t = t"
proof (cases t)
  case Nil
  then show ?thesis by (simp add: strip_def lstrip_def rstrip_def)
next
  case (Cons c cs)
  assume a: "list_all norm_char t" "trimmed t"
  from a Cons have h: "\<not> is_space c" by (simp add: trimmed_def norm_char_space)
  from a Cons have "norm_char (last t)" by (metis list.distinct(1) last_in_set list_all_iff)
  with a Cons have l: "\<not> is_space (last t)" by (simp add: trimmed_def norm_char_space)
  from Cons have "rev t = last t # rev (butlast t)"
    by (metis append_butlast_last_id list.distinct(1) rev_append append_Cons append_Nil rev_singleton_conv)
  with h l Cons show ?thesis by (simp add: strip_def lstrip_def rstrip_def)
qed

lemma normalize_title_clean: "clean t \<Longrightarrow> normalize_title t = strip_articles t"
proof (cases "t = []")
  case True
  then show ?thesis by (simp add: normalize_title_def strip_articles_def articles_def strip_article_def startswith_def)
next
  case False
  assume c: "clean t"
  then have a: "list_all norm_char t" and s: "single_spaced t" and tr: "trimmed t"
    by (simp_all add: clean_def)
  have 1: "strip (py_lower t) = t" using a tr by (simp add: py_lower_clean strip_trimmed)
  have 2: "remove_parens t = t" using a by (simp add: remove_parens_def sub_parens_clean)
  have 3: "collapse_ws t = t" using a s by (simp add: collapse_ws_def sub_ws_clean)
  show ?thesis using False 1 2 3 a tr
    by (simp add: normalize_title_def replace_char_clean remove_punct_clean strip_trimmed)
qed

lemma lstrip_decomp: "\<exists>a. s = a @ lstrip s"
  by (metis lstrip_def takeWhile_dropWhile_id)

lemma rstrip_decomp: "\<exists>b. s = rstrip s @ b"
proof -
  have "rev s = takeWhile is_space (rev s) @ dropWhile is_space (rev s)" by simp
  then have "s = rev (dropWhile is_space (rev s)) @ rev (takeWhile is_space (rev s))"
    by (metis rev_append rev_rev_ident)
  then show ?thesis by (auto simp add: rstrip_def)
qed

lemma strip_decomp: "\<exists>a b. s = a @ strip s @ b"
proof -
  obtain a where a: "s = a @ lstrip s" using lstrip_decomp by blast
  obtain b where b: "lstrip s = rstrip (lstrip s) @ b" using rstrip_decomp by blast
  from a b have "s = a @ strip s @ b" by (simp add: strip_def)
  then show ?thesis by blast
qed

lemma list_all_strip: "list_all P s \<Longrightarrow> list_all P (strip s)"
proof -
  assume p: "list_all P s"
  obtain a b where "s = a @ strip s @ b" using strip_decomp by blast
  with p show ?thesis by (metis list_all_append)
qed

lemma list_all_sub_parens: "list_all P s \<Longrightarrow> list_all P (sub_parens b s)"
  by (induction b s rule: sub_parens.induct) simp_all

lemma stable_and: "stable CHR ''a''" "stable CHR ''n''" "stable CHR ''d''" "stable CHR '' ''"
  by (simp_all add: stable_def lower_char_def)

lemma list_all_replace_amp: "list_all stable s \<Longrightarrow> list_all stable (replace_char CHR ''&'' ''and'' s)"
  by (induction s) (simp_all add: replace_char_def stable_and)

lemma space_is_space: "is_space CHR '' ''"
  by (simp add: is_space_def)

lemma list_all_remove_punct: "list_all stable s \<Longrightarrow> list_all pre_char (remove_punct s)"
  using stable_and(4) space_is_space
  by (induction s) (auto simp add: remove_punct_def pre_char_def stable_def)

lemma list_all_py_lower: "list_all stable (py_lower s)"
  by (induction s) (simp_all add: py_lower_def stable_def lower_char_idem)

lemma pre_char_norm: "pre_char c \<Longrightarrow> \<not> is_space c \<Longrightarrow> norm_char c \<and> c \<noteq> CHR '' ''"
  using space_is_space by (auto simp add: pre_char_def norm_char_def)

lemma norm_char_sp: "norm_char CHR '' ''"
  by (simp add: norm_char_def)

lemma single_spaced_Cons:
  "single_spaced (c # x) = ((x = [] \<or> \<not> (c = CHR '' '' \<and> hd x = CHR '' '')) \<and> single_spaced x)"
  by (cases x) auto

lemma sub_ws_shape:
  "list_all pre_char u \<Longrightarrow>
     list_all norm_char (sub_ws b u) \<and> single_spaced (sub_ws b u) \<and>
     (b \<longrightarrow> sub_ws b u = [] \<or> hd (sub_ws b u) \<noteq> CHR '' '')"
proof (induction u arbitrary: b)
  case Nil
  then show ?case by simp
next
  case (Cons c cs)
  then have pc: "pre_char c" and ih: "\<And>b. list_all norm_char (sub_ws b cs) \<and> single_spaced (sub_ws b cs) \<and>
     (b \<longrightarrow> sub_ws b cs = [] \<or> hd (sub_ws b cs) \<noteq> CHR '' '')" by simp_all
  show ?case
  proof (cases "is_space c")
    case True
    then show ?thesis using ih [of True] by (cases b) (auto simp add: norm_char_sp single_spaced_Cons)
  next
    case False
    then have "norm_char c \<and> c \<noteq> CHR '' ''" using pc pre_char_norm by blast
    then show ?thesis using False ih [of False] by (simp add: single_spaced_Cons)
  qed
qed

lemma single_spaced_append:
  "single_spaced (xs @ ys) \<Longrightarrow> single_spaced xs \<and> single_spaced ys"
  by (induction xs rule: single_spaced.induct) (auto simp add: single_spaced_Cons)

lemma single_spaced_strip: "single_spaced s \<Longrightarrow> single_spaced (strip s)"
proof -
  assume p: "single_spaced s"
  obtain a b where "s = a @ strip s @ b" using strip_decomp by blast
  with p show ?thesis by (metis single_spaced_append)
qed

lemma lstrip_hd: "lstrip s \<noteq> [] \<Longrightarrow> \<not> is_space (hd (lstrip s))"
  by (simp add: lstrip_def hd_dropWhile)

lemma rstrip_last: "rstrip s \<noteq> [] \<Longrightarrow> \<not> is_space (last (rstrip s))"
  by (metis rstrip_def hd_dropWhile last_rev rev_is_Nil_conv)

lemma rstrip_hd: "rstrip s \<noteq> [] \<Longrightarrow> hd (rstrip s) = hd s"
  by (metis rstrip_decomp hd_append2)

lemma rstrip_Nil: "rstrip s \<noteq> [] \<Longrightarrow> s \<noteq> []"
  by (auto simp add: rstrip_def)

lemma strip_ends: "strip s \<noteq> [] \<Longrightarrow> \<not> is_space (hd (strip s)) \<and> \<not> is_space (last (strip s))"
  using lstrip_hd rstrip_last rstrip_hd rstrip_Nil by (simp add: strip_def)

lemma trimmed_strip: "trimmed (strip s)"
  using strip_ends [of s] space_is_space by (auto simp add: trimmed_def)

lemma clean_after_article: "clean (x @ CHR '' '' # r) \<Longrightarrow> clean r"
proof -
  assume c: "clean (x @ CHR '' '' # r)"
  from c have la: "list_all norm_char r" by (simp add: clean_def)
  from c have l: "last (x @ CHR '' '' # r) \<noteq> CHR '' ''" by (simp add: clean_def trimmed_def)
  have ne: "r \<noteq> []"
  proof
    assume "r = []"
    with l show False by simp
  qed
  from c have "single_spaced (x @ CHR '' '' # r)" by (simp add: clean_def)
  then have "single_spaced (CHR '' '' # r)" by (rule single_spaced_append [THEN conjunct2])
  with ne have ss: "single_spaced r" and h: "hd r \<noteq> CHR '' ''" by (simp_all add: single_spaced_Cons)
  from l ne have "last r \<noteq> CHR '' ''" by simp
  with la ss h show ?thesis by (simp add: clean_def trimmed_def)
qed

lemma clean_strip_article:
  "clean s \<Longrightarrow> article = x @ '' '' \<Longrightarrow> clean (strip_article article s)"
proof (cases "startswith s article")
  case False
  assume "clean s"
  with False show ?thesis by (simp add: strip_article_def)
next
  case True
  assume c: "clean s" and a: "article = x @ '' ''"
  from True have "s = article @ drop (length article) s"
    by (metis startswith_def append_take_drop_id)
  with a have "s = x @ CHR '' '' # drop (length article) s" by simp
  with c have "clean (drop (length article) s)" using clean_after_article by metis
  with True show ?thesis by (simp add: strip_article_def)
qed

lemma clean_strip_articles: "clean s \<Longrightarrow> clean (strip_articles s)"
proof -
  assume c: "clean s"
  have 1: "clean (strip_article ''the '' s)" using c clean_strip_article [of s "''the ''" "''the''"] by simp
  have 2: "clean (strip_article ''a '' (strip_article ''the '' s))"
    using 1 clean_strip_article [of _ "''a ''" "''a''"] by simp
  have 3: "clean (strip_article ''an '' (strip_article ''a '' (strip_article ''the '' s)))"
    using 2 clean_strip_article [of _ "''an ''" "''an''"] by simp
  then show ?thesis by (simp add: strip_articles_def articles_def)
qed

lemma clean_Nil: "clean []"
  by (simp add: clean_def trimmed_def)

lemma clean_normalize_title: "clean (normalize_title s)"
proof (cases "s = []")
  case True
  then show ?thesis by (simp add: normalize_title_def clean_Nil)
next
  case False
  define u where "u = remove_punct (replace_char CHR ''&'' ''and'' (remove_parens (strip (py_lower s))))"
  have "list_all stable (replace_char CHR ''&'' ''and'' (remove_parens (strip (py_lower s))))"
    by (simp add: list_all_py_lower list_all_strip list_all_sub_parens list_all_replace_amp remove_parens_def)
  then have "list_all pre_char u" by (simp add: u_def list_all_remove_punct)
  then have "list_all norm_char (collapse_ws u) \<and> single_spaced (collapse_ws u)"
    using sub_ws_shape [of u False] by (simp add: collapse_ws_def)
  then have "clean (strip (collapse_ws u))"
    by (simp add: clean_def list_all_strip single_spaced_strip trimmed_strip)
  then have "clean (strip_articles (strip (collapse_ws u)))" by (rule clean_strip_articles)
  with False show ?thesis by (simp add: normalize_title_def u_def Let_def)
qed

lemma normalize_twice: "normalize_title (normalize_title s) = strip_articles (normalize_title s)"
  by (simp add: normalize_title_clean clean_normalize_title)

lemma strip_articles_id: "\<not> has_leading_article s \<Longrightarrow> strip_articles s = s"
  by (simp add: has_leading_article_def strip_articles_def articles_def strip_article_def)

lemma normalize_title_eval:
  "normalize_title ''The Batman'' = ''batman''"
  "normalize_title ''Batman'' = ''batman''"
  "normalize_title ''A A Film'' = ''a film''"
  "normalize_title ''a film'' = ''film''"
  "normalize_title ''Film'' = ''film''"
  by (simp_all add: normalize_title_def strip_def lstrip_def rstrip_def py_lower_def
      lower_char_def char_of_eq_iff remove_parens_def replace_char_def remove_punct_def
      collapse_ws_def strip_articles_def articles_def strip_article_def startswith_def
      is_space_def is_word_def)

text \<open>
  Claim C3, as amended. For every string \<open>s\<close> whose normalized title does not itself begin
  with one of the articles \<^verbatim>\<open>"the "\<close>, \<^verbatim>\<open>"a "\<close>, \<^verbatim>\<open>"an "\<close>, normalizing twice gives the same
  result as normalizing once. (In general the second normalization only runs the article
  loop again, see \<open>normalize_twice\<close>.)
\<close>

theorem normalize_title_idempotent_without_article:
  assumes "\<not> has_leading_article (normalize_title s)"
  shows "normalize_title (normalize_title s) = normalize_title s"
  using assms by (simp add: normalize_twice strip_articles_id)

theorem normalize_title_idempotent_without_article_witness:
  "\<not> has_leading_article (normalize_title ''The Batman'') \<and>
   normalize_title (normalize_title ''The Batman'') = normalize_title ''The Batman''"
proof -
  have b: "\<not> has_leading_article (normalize_title ''The Batman'')"
    by (simp add: normalize_title_eval has_leading_article_def startswith_def)
  show ?thesis
    using b normalize_title_idempotent_without_article [OF b] by simp
qed

text \<open>
  Claim C3, as stated, fails: the title \<^verbatim>\<open>"A A Film"\<close> normalizes to \<^verbatim>\<open>"a film"\<close>, and
  normalizing that again removes the second article and gives \<^verbatim>\<open>"film"\<close>.
\<close>

theorem normalize_title_not_idempotent:
  "normalize_title (normalize_title ''A A Film'') \<noteq> normalize_title ''A A Film''"
  by (simp add: normalize_title_eval)

lemma clean_article_prefix:
  assumes "clean t" and "t \<noteq> []" and "a \<in> set articles"
  shows "clean (a @ t)"
proof -
  from assms(1) have la: "list_all norm_char t" and ss: "single_spaced t" and tr: "trimmed t"
    by (simp_all add: clean_def)
  from tr assms(2) have h: "hd t \<noteq> CHR '' ''" and l: "last t \<noteq> CHR '' ''"
    by (simp_all add: trimmed_def)
  have w: "is_word CHR ''t''" "is_word CHR ''h''" "is_word CHR ''e''" "is_word CHR ''a''"
    "is_word CHR ''n''"
    by (simp_all add: is_word_def)
  have lo: "lower_char CHR ''t'' = CHR ''t''" "lower_char CHR ''h'' = CHR ''h''"
    "lower_char CHR ''e'' = CHR ''e''" "lower_char CHR ''a'' = CHR ''a''"
    "lower_char CHR ''n'' = CHR ''n''"
    by (simp_all add: lower_char_def)
  from assms(3) have "a = ''the '' \<or> a = ''a '' \<or> a = ''an ''" by (simp add: articles_def)
  then show ?thesis
    using la ss h l assms(2) w lo
    by (auto simp add: clean_def trimmed_def norm_char_def single_spaced_Cons)
qed

lemma strip_articles_repeated:
  "a \<in> set articles \<Longrightarrow> strip_articles (a @ a @ t) = a @ t"
  by (auto simp add: articles_def strip_articles_def strip_article_def startswith_def)

lemma strip_articles_single:
  "a \<in> set articles \<Longrightarrow> \<not> has_leading_article t \<Longrightarrow> strip_articles (a @ t) = t"
  by (auto simp add: articles_def strip_articles_def strip_article_def startswith_def
      has_leading_article_def)

lemma article_not_empty: "a \<in> set articles \<Longrightarrow> a \<noteq> []"
  by (auto simp add: articles_def)

text \<open>
  Claim C4, as amended. Title normalization strips one leading article and does not
  recurse: for every title \<open>s\<close> whose normalized form \<open>t\<close> is not empty and every article \<open>a\<close>
  (\<^verbatim>\<open>"the "\<close>, \<^verbatim>\<open>"a "\<close>, \<^verbatim>\<open>"an "\<close>), \<^verbatim>\<open>normalize(a + a + t) == a + t\<close>, the repeated article
  being removed once only, and \<^verbatim>\<open>normalize(a + t) == t\<close> when \<open>t\<close> does not itself begin
  with an article; in particular \<^verbatim>\<open>normalize("The Batman") == normalize("Batman")\<close>, and
  \<^verbatim>\<open>normalize("A A Film")\<close> is \<^verbatim>\<open>"a film"\<close>.
\<close>

theorem normalize_title_articles:
  "normalize_title ''The Batman'' = normalize_title ''Batman'' \<and>
   normalize_title ''A A Film'' = ''a film'' \<and>
   (a \<in> set articles \<and> normalize_title s \<noteq> [] \<longrightarrow>
      normalize_title (a @ a @ normalize_title s) = a @ normalize_title s \<and>
      (\<not> has_leading_article (normalize_title s) \<longrightarrow>
         normalize_title (a @ normalize_title s) = normalize_title s))"
proof (intro conjI impI)
  show "normalize_title ''The Batman'' = normalize_title ''Batman''"
    by (simp add: normalize_title_eval)
  show "normalize_title ''A A Film'' = ''a film''" by (simp add: normalize_title_eval)
next
  assume h: "a \<in> set articles \<and> normalize_title s \<noteq> []"
  have c: "clean (normalize_title s)" by (rule clean_normalize_title)
  from h c have c1: "clean (a @ normalize_title s)" by (simp add: clean_article_prefix)
  from h have "a @ normalize_title s \<noteq> []" by simp
  with h c1 have c2: "clean (a @ a @ normalize_title s)" by (simp add: clean_article_prefix)
  show "normalize_title (a @ a @ normalize_title s) = a @ normalize_title s"
    using h c2 by (simp add: normalize_title_clean strip_articles_repeated)
  assume "\<not> has_leading_article (normalize_title s)"
  then show "normalize_title (a @ normalize_title s) = normalize_title s"
    using h c1 by (simp add: normalize_title_clean strip_articles_single)
qed

theorem normalize_title_articles_witness:
  "''a '' \<in> set articles \<and> normalize_title ''Film'' \<noteq> [] \<and>
   \<not> has_leading_article (normalize_title ''Film'') \<and>
   normalize_title (''a '' @ ''a '' @ normalize_title ''Film'') = ''a '' @ normalize_title ''Film'' \<and>
   normalize_title (''a '' @ normalize_title ''Film'') = normalize_title ''Film''"
proof -
  have a: "''a '' \<in> set articles" by (simp add: articles_def)
  have n: "normalize_title ''Film'' \<noteq> []" by (simp add: normalize_title_eval)
  have l: "\<not> has_leading_article (normalize_title ''Film'')"
    by (simp add: normalize_title_eval has_leading_article_def startswith_def)
  show ?thesis
    using a n l normalize_title_articles [of "''a ''" "''Film''"] by simp
qed

text \<open>
  Claim C4, as stated, fails in its second example: \<^verbatim>\<open>normalize("A A Film")\<close> is
  \<^verbatim>\<open>"a film"\<close>, but \<^verbatim>\<open>normalize("a film")\<close> is \<^verbatim>\<open>"film"\<close>.
\<close>

theorem normalize_title_a_a_film_differs:
  "normalize_title ''A A Film'' \<noteq> normalize_title ''a film''"
  by (simp add: normalize_title_eval)

section \<open>Properties of parse\_money\<close>

text \<open>
  What \<^verbatim>\<open>parse_money\<close> returns for the examples of its documentation and for placeholder
  texts: \<^verbatim>\<open>"$1.2B"\<close> and \<^verbatim>\<open>"$400M"\<close> give 1200000000 and 400000000, and the dash, the
  empty string, \<^verbatim>\<open>"n/a"\<close>, \<^verbatim>\<open>"N/A"\<close>, \<^verbatim>\<open>"not applicable"\<close> and an argument that is not a
  string give \<^verbatim>\<open>None\<close>. The first value is the one that binary64 arithmetic gives: the
  float nearest to 1.2, times \<open>10 ^ 9\<close>, rounds to exactly 1200000000.
\<close>

lemma parse_money_examples:
  "parse_money (Some ''$1.2B'') = Inr (Some 1200000000) \<and>
   parse_money (Some ''$400M'') = Inr (Some 400000000) \<and>
   parse_money (Some ''-'') = Inr None \<and>
   parse_money (Some '''') = Inr None \<and>
   parse_money (Some ''n/a'') = Inr None \<and>
   parse_money (Some ''N/A'') = Inr None \<and>
   parse_money (Some ''not applicable'') = Inr None \<and>
   parse_money None = Inr None"
  by code_simp

text \<open>
  A text that \<^verbatim>\<open>float\<close> reads as an infinity leaves \<^verbatim>\<open>parse_money\<close> with
  \<^verbatim>\<open>OverflowError\<close>, which the handler does not catch.
\<close>

lemma parse_money_infinity:
  "parse_money (Some ''inf'') = Inl OverflowError \<and>
   parse_money (Some ''1e400'') = Inl OverflowError"
  by code_simp

text \<open>
  Claim C7 does not hold of the code: suffix notation is not always mapped to the exact
  integer. \<^verbatim>\<open>parse_money("$4.1M")\<close> is 4099999, not 4100000: the float nearest to 4.1 is
  below 4.1, its product with \<open>10 ^ 6\<close> rounds to the float just below 4100000, and
  \<^verbatim>\<open>int\<close> truncates. Likewise \<^verbatim>\<open>"$4.1B"\<close> gives 4099999999 and \<^verbatim>\<open>"$32.3K"\<close> gives 32299.
\<close>

theorem parse_money_truncates:
  "parse_money (Some ''$4.1M'') = Inr (Some 4099999) \<and>
   parse_money (Some ''$4.1B'') = Inr (Some 4099999999) \<and>
   parse_money (Some ''$32.3K'') = Inr (Some 32299)"
  by code_simp

section \<open>Properties of the table operations\<close>

lemma and_then_Inr: "and_then x f = Inr y \<longleftrightarrow> (\<exists>v. x = Inr v \<and> f v = Inr y)"
  by (cases x) (simp_all add: and_then_def)

lemma and_then_Inl: "x = Inl e \<Longrightarrow> and_then x f = Inl e"
  by (simp add: and_then_def)

lemma sequence_err_Inr:
  "sequence_err xs = Inr ys \<Longrightarrow> length ys = length xs \<and> (\<forall>i<length xs. xs ! i = Inr (ys ! i))"
proof (induction xs arbitrary: ys)
  case Nil
  then show ?case by simp
next
  case (Cons x xs)
  from Cons.prems obtain v vs where x: "x = Inr v" and s: "sequence_err xs = Inr vs" and y: "ys = v # vs"
    by (auto split: sum.splits)
  from Cons.IH [OF s] have ih: "length vs = length xs \<and> (\<forall>i<length xs. xs ! i = Inr (vs ! i))" .
  show ?case
  proof (intro conjI allI impI)
    show "length ys = length (x # xs)" using ih y by simp
  next
    fix i assume "i < length (x # xs)"
    then show "(x # xs) ! i = Inr (ys ! i)" using ih x y by (cases i) simp_all
  qed
qed

lemma getcol_Inr: "getcol df c = Inr vs \<Longrightarrow> c \<in> set (columns df) \<and> vs = map (\<lambda>r. r c) (rows df)"
  by (auto simp add: getcol_def split: if_splits)

lemma setcol_rows:
  "length vs = length (rows df) \<Longrightarrow> length (rows (setcol df c vs)) = length (rows df) \<and>
     (\<forall>i<length (rows df). rows (setcol df c vs) ! i = (rows df ! i)(c := vs ! i))"
  by (simp add: setcol_def)

lemma setcol_columns:
  "columns (setcol df c vs) = (if c \<in> set (columns df) then columns df else columns df @ [c])"
  by (simp add: setcol_def)

lemma with_column_Inr:
  assumes "with_column dst src f df = Inr df'"
  shows "length (rows df') = length (rows df) \<and>
         (\<forall>i<length (rows df). f ((rows df ! i) src) = Inr ((rows df' ! i) dst) \<and>
            (\<forall>c. c \<noteq> dst \<longrightarrow> (rows df' ! i) c = (rows df ! i) c))"
proof -
  from assms obtain vals news where g: "getcol df src = Inr vals"
    and s: "sequence_err (map f vals) = Inr news" and d: "df' = setcol df dst news"
    by (auto simp add: with_column_def and_then_Inr)
  from g have v: "vals = map (\<lambda>r. r src) (rows df)" using getcol_Inr by blast
  from s have l: "length news = length vals" and n: "\<forall>i<length vals. map f vals ! i = Inr (news ! i)"
    using sequence_err_Inr [OF s] by simp_all
  from l v have len: "length news = length (rows df)" by simp
  note sr = setcol_rows [OF len, of dst]
  show ?thesis
  proof (intro conjI allI impI)
    show "length (rows df') = length (rows df)" using sr d by simp
  next
    fix i assume i: "i < length (rows df)"
    then have "f ((rows df ! i) src) = Inr (news ! i)" using n v by simp
    then show "f ((rows df ! i) src) = Inr ((rows df' ! i) dst)" using sr d i by simp
  next
    fix i c assume i: "i < length (rows df)" and "c \<noteq> dst"
    then show "(rows df' ! i) c = (rows df ! i) c" using sr d by simp
  qed
qed

section \<open>Properties of the budget matcher\<close>

lemma match_row_scored:
  assumes "match_row lib cfg tn bom_title bom_year = Inr r"
    and "bom_title \<noteq> []"
    and "candidates_for tn bom_year = Inr cands"
    and "cands \<noteq> []"
    and "extractOne (token_sort_ratio lib) bom_title (map (\<lambda>r. r ''title_normalized'') cands)
           = Inr (Some (t, s, i))"
  shows "tn_match_score r = Num s \<and> tn_match_status r = Str (match_status cfg s)"
  using assms
  by (auto simp add: match_row_def and_then_def row_item_def Let_def split: if_splits)

text \<open>
  The loop body of the budget matcher, for every normalized target title, target year
  and budget table: an empty title, or an empty pool of candidates after the year
  blocking, gives \<open>unmatched\<close> with score 0, whatever the similarity measure is (it is not
  called); otherwise the score \<open>s\<close> of the candidate that \<^verbatim>\<open>extractOne\<close> selects is recorded and
  classified as \<open>matched\<close> when it reaches the accept threshold, \<open>review\<close> when it reaches
  the review threshold but not the accept threshold, and \<open>unmatched\<close> otherwise.
\<close>

theorem fuzzy_match_classification:
  "(bom_title = [] \<or> candidates_for tn bom_year = Inr [] \<longrightarrow>
      match_row lib cfg tn bom_title bom_year = Inr unmatched_result \<and>
      tn_match_status unmatched_result = Str ''unmatched'' \<and>
      tn_match_score unmatched_result = Num 0) \<and>
   (match_row lib cfg tn bom_title bom_year = Inr r \<and> bom_title \<noteq> [] \<and>
    candidates_for tn bom_year = Inr cands \<and> cands \<noteq> [] \<and>
    extractOne (token_sort_ratio lib) bom_title (map (\<lambda>r. r ''title_normalized'') cands)
      = Inr (Some (t, s, i)) \<longrightarrow>
      tn_match_score r = Num s \<and>
      (FUZZY_MATCH_ACCEPT_THRESHOLD cfg \<le> s \<longrightarrow> tn_match_status r = Str ''matched'') \<and>
      (FUZZY_MATCH_REVIEW_THRESHOLD cfg \<le> s \<and> s < FUZZY_MATCH_ACCEPT_THRESHOLD cfg \<longrightarrow>
         tn_match_status r = Str ''review'') \<and>
      (s < FUZZY_MATCH_REVIEW_THRESHOLD cfg \<and> s < FUZZY_MATCH_ACCEPT_THRESHOLD cfg \<longrightarrow>
         tn_match_status r = Str ''unmatched''))"
proof (intro conjI impI)
  assume "bom_title = [] \<or> candidates_for tn bom_year = Inr []"
  then show "match_row lib cfg tn bom_title bom_year = Inr unmatched_result"
    by (auto simp add: match_row_def and_then_def)
next
  show "tn_match_status unmatched_result = Str ''unmatched''" by (simp add: unmatched_result_def)
next
  show "tn_match_score unmatched_result = Num 0" by (simp add: unmatched_result_def)
next
  assume a: "match_row lib cfg tn bom_title bom_year = Inr r \<and> bom_title \<noteq> [] \<and>
    candidates_for tn bom_year = Inr cands \<and> cands \<noteq> [] \<and>
    extractOne (token_sort_ratio lib) bom_title (map (\<lambda>r. r ''title_normalized'') cands)
      = Inr (Some (t, s, i))"
  then have b: "tn_match_score r = Num s \<and> tn_match_status r = Str (match_status cfg s)"
    using match_row_scored by blast
  from b show "tn_match_score r = Num s" by simp
  { assume "FUZZY_MATCH_ACCEPT_THRESHOLD cfg \<le> s"
    with b show "tn_match_status r = Str ''matched''" by (simp add: match_status_def) }
  { assume "FUZZY_MATCH_REVIEW_THRESHOLD cfg \<le> s \<and> s < FUZZY_MATCH_ACCEPT_THRESHOLD cfg"
    with b show "tn_match_status r = Str ''review''" by (simp add: match_status_def) }
  { assume "s < FUZZY_MATCH_REVIEW_THRESHOLD cfg \<and> s < FUZZY_MATCH_ACCEPT_THRESHOLD cfg"
    with b show "tn_match_status r = Str ''unmatched''" by (simp add: match_status_def) }
qed

lemma tn_example_candidates:
  "candidates_for tn_example (Some 2022) = Inr (rows tn_example)"
  "candidates_for tn_example (Some 1990) = Inr []"
  by (simp_all add: candidates_for_def tn_example_def row_of_def in_year_block_def num_view_def
      and_then_def)

lemma tn_example_extract:
  "extractOne (token_sort_ratio example_lib) ''batman''
     (map (\<lambda>r. r ''title_normalized'') (rows tn_example)) = Inr (Some (''batman'', 100, 0))"
  by (simp add: extractOne_def enumerate_eq_zip tn_example_def row_of_def example_lib_def isna_def)

lemma tn_example_match:
  "match_row example_lib cfg tn_example ''batman'' (Some 2022)
     = Inr (batman_match (match_status cfg 100))"
  by (simp add: match_row_def tn_example_candidates tn_example_extract and_then_def)
     (simp add: tn_example_def row_item_def row_get_def row_of_def batman_match_def)

theorem fuzzy_match_classification_witness:
  "match_row example_lib default_config tn_example [] (Some 2022) = Inr unmatched_result \<and>
   candidates_for tn_example (Some 1990) = Inr [] \<and>
   match_row example_lib default_config tn_example ''batman'' (Some 1990) = Inr unmatched_result \<and>
   extractOne (token_sort_ratio example_lib) ''batman''
     (map (\<lambda>r. r ''title_normalized'') (rows tn_example)) = Inr (Some (''batman'', 100, 0)) \<and>
   match_row example_lib default_config tn_example ''batman'' (Some 2022)
     = Inr (batman_match ''matched'') \<and>
   tn_match_status (batman_match ''matched'') = Str ''matched'' \<and>
   match_row example_lib (default_config\<lparr>FUZZY_MATCH_ACCEPT_THRESHOLD := 200\<rparr>) tn_example
     ''batman'' (Some 2022) = Inr (batman_match ''review'') \<and>
   tn_match_status (batman_match ''review'') = Str ''review'' \<and>
   match_row example_lib (default_config\<lparr>FUZZY_MATCH_ACCEPT_THRESHOLD := 200,
     FUZZY_MATCH_REVIEW_THRESHOLD := 150\<rparr>) tn_example ''batman'' (Some 2022)
     = Inr (batman_match ''unmatched'') \<and>
   tn_match_status (batman_match ''unmatched'') = Str ''unmatched''"
proof -
  let ?cfg2 = "default_config\<lparr>FUZZY_MATCH_ACCEPT_THRESHOLD := 200\<rparr>"
  let ?cfg3 = "default_config\<lparr>FUZZY_MATCH_ACCEPT_THRESHOLD := 200,
     FUZZY_MATCH_REVIEW_THRESHOLD := 150\<rparr>"
  note c = tn_example_candidates and e = tn_example_extract
  have ne: "rows tn_example \<noteq> []" by (simp add: tn_example_def)
  have a: "match_row example_lib default_config tn_example [] (Some 2022) = Inr unmatched_result"
    using fuzzy_match_classification [where bom_title = "[]"] by simp
  have b: "match_row example_lib default_config tn_example ''batman'' (Some 1990) = Inr unmatched_result"
    using fuzzy_match_classification [where tn = tn_example and bom_year = "Some 1990"] c(2)
    by simp
  have m1: "match_row example_lib default_config tn_example ''batman'' (Some 2022)
     = Inr (batman_match ''matched'')"
    by (simp add: tn_example_match match_status_def default_config_def)
  have m2: "match_row example_lib ?cfg2 tn_example ''batman'' (Some 2022)
     = Inr (batman_match ''review'')"
    by (simp add: tn_example_match match_status_def default_config_def)
  have m3: "match_row example_lib ?cfg3 tn_example ''batman'' (Some 2022)
     = Inr (batman_match ''unmatched'')"
    by (simp add: tn_example_match match_status_def default_config_def)
  have s1: "tn_match_status (batman_match ''matched'') = Str ''matched''"
    using fuzzy_match_classification [where bom_title = "''batman''" and tn = tn_example
        and bom_year = "Some 2022" and lib = example_lib and cfg = default_config
        and r = "batman_match ''matched''" and cands = "rows tn_example" and t = "''batman''"
        and s = 100 and i = 0] m1 c(1) e ne
    by (simp add: default_config_def)
  have s2: "tn_match_status (batman_match ''review'') = Str ''review''"
    using fuzzy_match_classification [where bom_title = "''batman''" and tn = tn_example
        and bom_year = "Some 2022" and lib = example_lib and cfg = ?cfg2
        and r = "batman_match ''review''" and cands = "rows tn_example" and t = "''batman''"
        and s = 100 and i = 0] m2 c(1) e ne
    by (simp add: default_config_def)
  have s3: "tn_match_status (batman_match ''unmatched'') = Str ''unmatched''"
    using fuzzy_match_classification [where bom_title = "''batman''" and tn = tn_example
        and bom_year = "Some 2022" and lib = example_lib and cfg = ?cfg3
        and r = "batman_match ''unmatched''" and cands = "rows tn_example" and t = "''batman''"
        and s = 100 and i = 0] m3 c(1) e ne
    by (simp add: default_config_def)
  show ?thesis using a b c(2) e m1 m2 m3 s1 s2 s3 by simp
qed

text \<open>
  A title cell that is \<^verbatim>\<open>None\<close> or the empty text normalizes to the empty title, which
  the loop turns into \<open>unmatched\<close> with score 0.
\<close>

lemma empty_title_unmatched:
  "normalize_title_cell PyNone = Inr [] \<and> normalize_title_cell (Str []) = Inr [] \<and>
   match_row lib cfg tn [] bom_year = Inr unmatched_result"
  by (simp add: normalize_title_cell_def truthy_def match_row_def)

text \<open>
  Claim C1 does not hold of the code for a null title. The null of a table read by
  \<^verbatim>\<open>read_csv\<close> is NaN, which is truthy: the guard \<^verbatim>\<open>if not title\<close> of \<^verbatim>\<open>normalize_title\<close>
  lets it through and \<^verbatim>\<open>title.lower()\<close> raises \<^verbatim>\<open>AttributeError\<close>. The budget-matching
  stage, given the table \<open>bom_nan_title_example\<close> whose film has no title, raises this
  exception instead of returning the status \<open>unmatched\<close> with score 0.
\<close>

theorem fuzzy_match_nan_title_raises:
  "normalize_title_cell NaN = Inl AttributeError \<and>
   fuzzy_match_budgets example_lib default_config bom_nan_title_example tn_example
     = Inl AttributeError"
  by (simp add: fuzzy_match_budgets_def getcol_def bom_nan_title_example_def and_then_def
      row_of_def normalize_title_cell_def truthy_def)

section \<open>The frame of the budget-matching stage\<close>

lemma setcols_Cons: "setcols ((c, v) # l) df = setcols l (setcol df c v)"
  by (simp add: setcols_def)

lemma setcols_rows:
  "\<forall>v \<in> snd ` set l. length v = length (rows df) \<Longrightarrow>
     length (rows (setcols l df)) = length (rows df) \<and>
     (\<forall>i<length (rows df). \<forall>c. c \<notin> fst ` set l \<longrightarrow> (rows (setcols l df) ! i) c = (rows df ! i) c)"
proof (induction l arbitrary: df)
  case Nil
  then show ?case by (simp add: setcols_def)
next
  case (Cons p l)
  obtain c v where p: "p = (c, v)" by (cases p) auto
  from Cons.prems p have lv: "length v = length (rows df)" by simp
  note s = setcol_rows [OF lv, of c]
  from Cons.prems s have "\<forall>w \<in> snd ` set l. length w = length (rows (setcol df c v))" by simp
  from Cons.IH [OF this] s show ?case using p by (auto simp add: setcols_Cons)
qed

lemma setcols_columns:
  "distinct (map fst l) \<Longrightarrow>
     columns (setcols l df) = columns df @ filter (\<lambda>c. c \<notin> set (columns df)) (map fst l)"
proof (induction l arbitrary: df)
  case Nil
  then show ?case by (simp add: setcols_def)
next
  case (Cons p l)
  obtain c v where p: "p = (c, v)" by (cases p) auto
  from Cons.prems p have d: "distinct (map fst l)" and n: "c \<notin> set (map fst l)" by simp_all
  have f: "filter (\<lambda>x. x \<notin> set (columns df @ [c])) (map fst l)
             = filter (\<lambda>x. x \<notin> set (columns df)) (map fst l)"
    using n by (intro filter_cong) auto
  show ?case using Cons.IH [OF d, of "setcol df c v"] p f
    by (simp add: setcols_Cons setcol_columns)
qed

lemma fuzzy_match_budgets_shape:
  assumes "fuzzy_match_budgets lib cfg bom_df tn_df = Inr out"
  shows "\<exists>l. out = setcols l bom_df \<and> map fst l = stage_cols \<and>
             (\<forall>v \<in> snd ` set l. length v = length (rows bom_df))"
proof -
  from assms obtain titles norms dates years tn results where
    t: "getcol bom_df ''title'' = Inr titles" and
    n: "sequence_err (map normalize_title_cell titles) = Inr norms" and
    y: "sequence_err (map (year_of_cell lib) dates) = Inr years" and
    d: "getcol (setcol bom_df ''title_norm'' (map Str norms)) ''release_date_parsed'' = Inr dates" and
    r: "sequence_err (map (\<lambda>(t, y). match_row lib cfg tn t y) (zip norms years)) = Inr results" and
    o: "out = attach_results (setcol (setcol bom_df ''title_norm'' (map Str norms))
              ''release_year'' (map year_cell years)) results"
    by (auto simp add: fuzzy_match_budgets_def and_then_Inr Let_def split: if_splits)
  have lt: "length titles = length (rows bom_df)" using getcol_Inr [OF t] by simp
  have ln: "length norms = length (rows bom_df)" using sequence_err_Inr [OF n] lt by simp
  have "length dates = length (rows (setcol bom_df ''title_norm'' (map Str norms)))"
    using getcol_Inr [OF d] by simp
  then have ld: "length dates = length (rows bom_df)" using setcol_rows [of "map Str norms" bom_df] ln by simp
  have ly: "length years = length (rows bom_df)" using sequence_err_Inr [OF y] ld by simp
  have lr: "length results = length (rows bom_df)" using sequence_err_Inr [OF r] ln ly by simp
  let ?l = "[(''title_norm'', map Str norms), (''release_year'', map year_cell years),
             (''tn_title_matched'', map tn_title_matched results),
             (''tn_match_score'', map tn_match_score results),
             (''production_budget'', map production_budget results),
             (''tn_domestic_gross'', map tn_domestic_gross results),
             (''tn_match_status'', map tn_match_status results)]"
  have "out = setcols ?l bom_df" using o by (simp add: setcols_def attach_results_def)
  moreover have "map fst ?l = stage_cols" by (simp add: stage_cols_def budget_cols_def)
  moreover have "\<forall>v \<in> snd ` set ?l. length v = length (rows bom_df)" using ln ly lr by simp
  ultimately show ?thesis by blast
qed

text \<open>
  Claim C10, as amended. Whenever the budget-matching stage returns, its output has as
  many rows as its input, in the same order; every column of the input keeps its
  values, unless it bears the name of one of the seven columns that the stage assigns;
  and the columns of the output are those of the input followed by those of
  \<^verbatim>\<open>title_norm\<close>, \<^verbatim>\<open>release_year\<close> and the five budget-match columns that the input did not
  have: besides the five budget-match columns the stage adds the two helper columns
  \<^verbatim>\<open>title_norm\<close> and \<^verbatim>\<open>release_year\<close>.
\<close>

theorem budget_stage_frame:
  assumes "fuzzy_match_budgets lib cfg bom_df tn_df = Inr out"
  shows "length (rows out) = length (rows bom_df) \<and>
         columns out = columns bom_df @
           filter (\<lambda>c. c \<notin> set (columns bom_df)) (''title_norm'' # ''release_year'' # budget_cols) \<and>
         (\<forall>i<length (rows bom_df). \<forall>c\<in>set (columns bom_df).
            c \<notin> set (''title_norm'' # ''release_year'' # budget_cols) \<longrightarrow>
              (rows out ! i) c = (rows bom_df ! i) c)"
proof -
  from fuzzy_match_budgets_shape [OF assms] obtain l where
    o: "out = setcols l bom_df" and f: "map fst l = stage_cols" and
    v: "\<forall>v \<in> snd ` set l. length v = length (rows bom_df)" by blast
  have d: "distinct (map fst l)" using f by (simp add: stage_cols_def budget_cols_def)
  have s: "fst ` set l = set stage_cols" using f by (metis set_map)
  note r = setcols_rows [OF v] and c = setcols_columns [OF d, of bom_df]
  show ?thesis using r c o f s by (simp add: stage_cols_def)
qed

lemmas fuzzy_eval = fuzzy_match_budgets_def prepare_tn_def attach_results_def
  normalize_title_cell_def year_of_cell_def year_cell_def truthy_def sequence_err.simps

lemma bom_example_matched:
  "\<exists>out. fuzzy_match_budgets example_lib default_config bom_example tn_example = Inr out"
  apply (simp add: fuzzy_eval bom_example_def getcol_def setcol_def and_then_def row_of_def
      normalize_title_eval)
  apply (simp add: example_lib_def tn_example_match [unfolded example_lib_def])
  apply (simp add: tn_example_def)
  done

lemma bom_example_cells:
  "length (rows bom_example) = 1"
  "columns bom_example = [''title'', ''release_date_parsed'']"
  "(rows bom_example ! 0) ''title'' = Str ''The Batman''"
  by (simp_all add: bom_example_def row_of_def)

theorem budget_stage_frame_witness:
  "(case fuzzy_match_budgets example_lib default_config bom_example tn_example of
      Inr out \<Rightarrow>
        length (rows out) = 1 \<and>
        columns out = [''title'', ''release_date_parsed'', ''title_norm'', ''release_year'',
          ''tn_title_matched'', ''tn_match_score'', ''production_budget'', ''tn_domestic_gross'',
          ''tn_match_status''] \<and>
        (rows out ! 0) ''title'' = Str ''The Batman''
    | Inl e \<Rightarrow> False)"
proof -
  obtain out where o: "fuzzy_match_budgets example_lib default_config bom_example tn_example = Inr out"
    using bom_example_matched by blast
  note t = budget_stage_frame [OF o] and c = bom_example_cells
  have 1: "length (rows out) = 1" using t c(1) by simp
  have 2: "columns out = [''title'', ''release_date_parsed'', ''title_norm'', ''release_year'',
          ''tn_title_matched'', ''tn_match_score'', ''production_budget'', ''tn_domestic_gross'',
          ''tn_match_status'']" using t c(2) by (simp add: budget_cols_def)
  have 3: "(rows out ! 0) ''title'' = Str ''The Batman''"
    using t c by (simp add: budget_cols_def)
  show ?thesis using o 1 2 3 by simp
qed

text \<open>
  Claim C10, as stated, fails: on a table with the columns \<^verbatim>\<open>title\<close> and
  \<^verbatim>\<open>release_date_parsed\<close> the output does not consist of the input's columns and the five
  budget-match columns; it also has the columns \<^verbatim>\<open>title_norm\<close> and \<^verbatim>\<open>release_year\<close>.
\<close>

theorem budget_stage_adds_helper_columns:
  "(case fuzzy_match_budgets example_lib default_config bom_example tn_example of
      Inr out \<Rightarrow>
        columns out \<noteq> columns bom_example @ budget_cols \<and>
        ''title_norm'' \<in> set (columns out) \<and> ''release_year'' \<in> set (columns out) \<and>
        map (\<lambda>r. r ''title_norm'') (rows out) = [Str ''batman''] \<and>
        map (\<lambda>r. r ''release_year'') (rows out) = [Num 2022]
    | Inl e \<Rightarrow> False)"
  apply (simp add: fuzzy_eval bom_example_def getcol_def setcol_def and_then_def row_of_def
      normalize_title_eval)
  apply (simp add: example_lib_def tn_example_match [unfolded example_lib_def])
  apply (simp add: tn_example_def budget_cols_def attach_results_def setcol_def year_cell_def
      bom_example_cells)
  done

section \<open>Properties of the exact-key merges\<close>

lemma keys_match_norm: "keys_match a b \<longleftrightarrow> norm_key a = norm_key b"
  by (auto simp add: keys_match_def norm_key_def isna_def)

lemma distinct_filter_le_one:
  "distinct (map k rs) \<Longrightarrow> length (filter (\<lambda>r. k r = x) rs) \<le> 1"
proof (induction rs)
  case Nil
  then show ?case by simp
next
  case (Cons r rs)
  show ?case
  proof (cases "k r = x")
    case True
    with Cons.prems have "\<forall>r' \<in> set rs. k r' \<noteq> x" by (auto simp add: image_iff)
    then have "filter (\<lambda>r. k r = x) rs = []" by (simp add: filter_empty_conv)
    with True show ?thesis by simp
  next
    case False
    with Cons show ?thesis by simp
  qed
qed

lemma left_join_length_ge: "length ls \<le> length (left_join key ls rs)"
proof (induction ls)
  case Nil
  then show ?case by (simp add: left_join_def)
next
  case (Cons l ls)
  then show ?case by (simp add: left_join_def split: list.splits)
qed

lemma left_join_length_unique:
  "distinct (map (\<lambda>r. norm_key (r key)) rs) \<Longrightarrow> length (left_join key ls rs) = length ls"
proof (induction ls)
  case Nil
  then show ?case by (simp add: left_join_def)
next
  case (Cons l ls)
  have "length (filter (\<lambda>r. norm_key (r key) = norm_key (l key)) rs) \<le> 1"
    using Cons.prems by (rule distinct_filter_le_one)
  then have "length (filter (\<lambda>r. keys_match (l key) (r key)) rs) \<le> 1"
    by (simp add: keys_match_norm eq_commute)
  then have "length (case filter (\<lambda>r. keys_match (l key) (r key)) rs of
                       [] \<Rightarrow> [(l, None)] | m # ms \<Rightarrow> map (\<lambda>r. (l, Some r)) (m # ms)) = 1"
    by (cases "filter (\<lambda>r. keys_match (l key) (r key)) rs") simp_all
  with Cons show ?case by (simp add: left_join_def)
qed

lemma left_join_map:
  assumes "\<And>x. f x key = x key" and "\<And>x. g x key = x key"
  shows "left_join key (map f ls) (map g rs)
           = map (\<lambda>(l, d). (f l, map_option g d)) (left_join key ls rs)"
proof (induction ls)
  case Nil
  then show ?case by (simp add: left_join_def)
next
  case (Cons l ls)
  have "filter (\<lambda>r. keys_match (f l key) (r key)) (map g rs)
          = map g (filter (\<lambda>r. keys_match (l key) (r key)) rs)"
    using assms by (simp add: filter_map comp_def)
  then have "(case filter (\<lambda>r. keys_match (f l key) (r key)) (map g rs) of
                [] \<Rightarrow> [(f l, None)] | m # ms \<Rightarrow> map (\<lambda>r. (f l, Some r)) (m # ms))
             = map (\<lambda>(l, d). (f l, map_option g d))
                 (case filter (\<lambda>r. keys_match (l key) (r key)) rs of
                    [] \<Rightarrow> [(l, None)] | m # ms \<Rightarrow> map (\<lambda>r. (l, Some r)) (m # ms))"
    by (simp split: list.splits)
  with Cons show ?case by (simp add: left_join_def)
qed

lemma select_Inr:
  "select df cs = Inr d \<Longrightarrow> columns d = cs \<and> rows d = map (restrict_row cs) (rows df) \<and>
     set cs \<subseteq> set (columns df)"
  by (auto simp add: select_def Let_def filter_empty_conv split: if_splits)

lemma pd_merge_left_Inr:
  "pd_merge_left l r key sl sr = Inr m \<Longrightarrow>
     key \<in> set (columns l) \<and> key \<in> set (columns r) \<and>
     columns m = map fst (left_names key sl (columns l) (columns r)) @
                 map fst (right_names key sr (columns l) (columns r)) \<and>
     rows m = map (merged_row (left_names key sl (columns l) (columns r))
                              (right_names key sr (columns l) (columns r)))
                  (left_join key (rows l) (rows r))"
  by (auto simp add: pd_merge_left_def Let_def split: if_splits)

lemma restrict_row_in: "c \<in> set cs \<Longrightarrow> restrict_row cs r c = r c"
  by (simp add: restrict_row_def)

lemma bom_merged_cells:
  "bom_merged (l, d) ''domestic_gross'' = detail_cell d ''domestic_gross''"
  "bom_merged (l, d) ''total_gross'' = l ''total_gross''"
  "bom_merged (l, d) ''distributor_detail'' = detail_cell d ''distributor''"
  "bom_merged (l, d) ''distributor_index'' = l ''distributor''"
  by (cases d; simp add: bom_merged_def merged_row_def left_names_def right_names_def
      index_cols_def detail_cols_def restrict_row_def detail_cell_def)+

lemma bom_joined_Inr:
  assumes "bom_joined bi bd = Inr j"
  shows "columns j = joined_cols \<and>
         rows j = map bom_merged (left_join ''bom_release_id'' (rows bi) (rows bd))"
proof -
  from assms obtain l r where l: "select bi index_cols = Inr l" and r: "select bd detail_cols = Inr r"
    and m: "pd_merge_left l r ''bom_release_id'' ''_index'' ''_detail'' = Inr j"
    by (auto simp add: bom_joined_def and_then_Inr)
  note sl = select_Inr [OF l] and sr = select_Inr [OF r] and pm = pd_merge_left_Inr [OF m]
  have c: "columns j = joined_cols"
    using pm sl sr
    by (simp add: left_names_def right_names_def index_cols_def detail_cols_def joined_cols_def)
  have kl: "\<And>x. restrict_row index_cols x ''bom_release_id'' = x ''bom_release_id''"
    by (simp add: restrict_row_def index_cols_def)
  have kr: "\<And>x. restrict_row detail_cols x ''bom_release_id'' = x ''bom_release_id''"
    by (simp add: restrict_row_def detail_cols_def)
  have "rows j = map (merged_row (left_names ''bom_release_id'' ''_index'' index_cols detail_cols)
                (right_names ''bom_release_id'' ''_detail'' index_cols detail_cols))
             (left_join ''bom_release_id'' (map (restrict_row index_cols) (rows bi))
                (map (restrict_row detail_cols) (rows bd)))"
    using pm sl sr by simp
  also have "\<dots> = map bom_merged (left_join ''bom_release_id'' (rows bi) (rows bd))"
    by (simp add: left_join_map [of "restrict_row index_cols" _ "restrict_row detail_cols", OF kl kr]
        bom_merged_def comp_def case_prod_beta)
  finally show ?thesis using c by simp
qed

lemma zip_map_self: "zip xs (map h xs) = map (\<lambda>x. (x, h x)) xs"
  by (induction xs) simp_all

lemma map2_fillna:
  "map (\<lambda>(a, b). fillna a b) (zip (map f xs) (map g xs)) = map (\<lambda>r. fillna (f r) (g r)) xs"
  by (induction xs) simp_all

lemma setcol_fill_rows:
  "rows (setcol df c (map (\<lambda>(a, b). fillna a b)
          (zip (map (\<lambda>r. r x) (rows df)) (map (\<lambda>r. r y) (rows df)))))
     = map (\<lambda>r. r(c := fillna (r x) (r y))) (rows df)"
  by (simp add: map2_fillna setcol_def zip_map_self comp_def)

lemma merge_bom_Inr:
  assumes "merge_bom lib bi bd = Inr out"
  shows "\<exists>j. bom_joined bi bd = Inr j \<and> length (rows out) = length (rows j) \<and>
           (\<forall>i<length (rows j).
              (rows out ! i) ''domestic_gross''
                = fillna ((rows j ! i) ''domestic_gross'') ((rows j ! i) ''total_gross'') \<and>
              (rows out ! i) ''distributor''
                = fillna ((rows j ! i) ''distributor_detail'') ((rows j ! i) ''distributor_index''))"
proof -
  from assms obtain j b1 dg tg where
    j: "bom_joined bi bd = Inr j" and
    b1: "with_column ''title'' ''title'' Inr j = Inr b1" and
    dg: "getcol b1 ''domestic_gross'' = Inr dg" and
    tg: "getcol b1 ''total_gross'' = Inr tg" and
    r1: "and_then (getcol (setcol b1 ''domestic_gross'' (map (\<lambda>(a, b). fillna a b) (zip dg tg)))
            ''distributor_detail'') (\<lambda>distributor_detail.
         and_then (getcol (setcol b1 ''domestic_gross'' (map (\<lambda>(a, b). fillna a b) (zip dg tg)))
            ''distributor_index'') (\<lambda>distributor_index.
         let bom = setcol (setcol b1 ''domestic_gross'' (map (\<lambda>(a, b). fillna a b) (zip dg tg)))
                     ''distributor''
                     (map (\<lambda>(a, b). fillna a b) (zip distributor_detail distributor_index)) in
         and_then (sequence_err (map (resolve_release_date lib) (rows bom))) (\<lambda>dates.
         let bom = setcol bom ''release_date_parsed'' dates in
         select bom (filter (\<lambda>c. c \<in> set (columns bom)) keep_cols)))) = Inr out"
    by (auto simp add: merge_bom_def and_then_Inr Let_def)
  define b2 where "b2 = setcol b1 ''domestic_gross'' (map (\<lambda>(a, b). fillna a b) (zip dg tg))"
  from r1 obtain dd di where
    dd: "getcol b2 ''distributor_detail'' = Inr dd" and
    di: "getcol b2 ''distributor_index'' = Inr di" and
    r2: "(let bom = setcol b2 ''distributor'' (map (\<lambda>(a, b). fillna a b) (zip dd di)) in
         and_then (sequence_err (map (resolve_release_date lib) (rows bom))) (\<lambda>dates.
         let bom = setcol bom ''release_date_parsed'' dates in
         select bom (filter (\<lambda>c. c \<in> set (columns bom)) keep_cols))) = Inr out"
    by (auto simp add: and_then_Inr b2_def)
  define b3 where "b3 = setcol b2 ''distributor'' (map (\<lambda>(a, b). fillna a b) (zip dd di))"
  from r2 obtain dates where
    ds: "sequence_err (map (resolve_release_date lib) (rows b3)) = Inr dates" and
    o: "select (setcol b3 ''release_date_parsed'' dates)
          (filter (\<lambda>c. c \<in> set (columns (setcol b3 ''release_date_parsed'' dates))) keep_cols)
        = Inr out"
    by (auto simp add: and_then_Inr b3_def Let_def)
  define b4 where "b4 = setcol b3 ''release_date_parsed'' dates"
  note w = with_column_Inr [OF b1]
  have n1: "length (rows b1) = length (rows j)" using w by simp
  have v1: "\<And>i c. i < length (rows j) \<Longrightarrow> (rows b1 ! i) c = (rows j ! i) c"
  proof -
    fix i c assume i: "i < length (rows j)"
    show "(rows b1 ! i) c = (rows j ! i) c"
    proof (cases "c = ''title''")
      case True
      with w i show ?thesis by simp
    next
      case False
      with w i show ?thesis by simp
    qed
  qed
  have rb2: "rows b2 = map (\<lambda>r. r(''domestic_gross'' := fillna (r ''domestic_gross'') (r ''total_gross''))) (rows b1)"
    using getcol_Inr [OF dg] getcol_Inr [OF tg] setcol_fill_rows [of b1] by (simp add: b2_def)
  have rb3: "rows b3 = map (\<lambda>r. r(''distributor'' := fillna (r ''distributor_detail'') (r ''distributor_index''))) (rows b2)"
    using getcol_Inr [OF dd] getcol_Inr [OF di] setcol_fill_rows [of b2] by (simp add: b3_def)
  have ld: "length dates = length (rows b3)" using sequence_err_Inr [OF ds] by simp
  note sc = setcol_rows [OF ld, of "''release_date_parsed''"]
  have n3: "length (rows b3) = length (rows j)" using rb3 rb2 n1 by simp
  have cb1: "columns b1 = joined_cols"
    using b1 bom_joined_Inr [OF j]
    by (auto simp add: with_column_def and_then_Inr setcol_columns getcol_def joined_cols_def
        split: if_splits)
  have cb4: "''domestic_gross'' \<in> set (columns b4) \<and> ''distributor'' \<in> set (columns b4)"
    using cb1 by (simp add: b4_def b3_def b2_def setcol_columns joined_cols_def)
  note so = select_Inr [OF o [folded b4_def]]
  have ro: "rows out = map (restrict_row (filter (\<lambda>c. c \<in> set (columns b4)) keep_cols)) (rows b4)"
    using so by simp
  have kc: "''domestic_gross'' \<in> set (filter (\<lambda>c. c \<in> set (columns b4)) keep_cols) \<and>
            ''distributor'' \<in> set (filter (\<lambda>c. c \<in> set (columns b4)) keep_cols)"
    using cb4 by (simp add: keep_cols_def)
  have len: "length (rows out) = length (rows j)" using ro sc n3 by (simp add: b4_def)
  have cells: "\<forall>i<length (rows j).
              (rows out ! i) ''domestic_gross''
                = fillna ((rows j ! i) ''domestic_gross'') ((rows j ! i) ''total_gross'') \<and>
              (rows out ! i) ''distributor''
                = fillna ((rows j ! i) ''distributor_detail'') ((rows j ! i) ''distributor_index'')"
  proof (intro allI impI)
    fix i assume i: "i < length (rows j)"
    then have i3: "i < length (rows b3)" using n3 by simp
    have i1: "i < length (rows b1)" using i n1 by simp
    have i2: "i < length (rows b2)" using i1 rb2 by simp
    have r4: "rows b4 ! i = (rows b3 ! i)(''release_date_parsed'' := dates ! i)"
      using sc i3 by (simp add: b4_def)
    have r3: "rows b3 ! i = (rows b2 ! i)(''distributor'' :=
                fillna ((rows b2 ! i) ''distributor_detail'') ((rows b2 ! i) ''distributor_index''))"
      using rb3 i2 by simp
    have r2: "rows b2 ! i = (rows b1 ! i)(''domestic_gross'' :=
                fillna ((rows b1 ! i) ''domestic_gross'') ((rows b1 ! i) ''total_gross''))"
      using rb2 i1 by simp
    have i4: "i < length (rows b4)" using sc i3 by (simp add: b4_def)
    have o1: "(rows out ! i) ''domestic_gross'' = (rows b4 ! i) ''domestic_gross''"
      using ro i4 kc by (simp add: restrict_row_in)
    have o2: "(rows out ! i) ''distributor'' = (rows b4 ! i) ''distributor''"
      using ro i4 kc by (simp add: restrict_row_in)
    show "(rows out ! i) ''domestic_gross''
                = fillna ((rows j ! i) ''domestic_gross'') ((rows j ! i) ''total_gross'') \<and>
              (rows out ! i) ''distributor''
                = fillna ((rows j ! i) ''distributor_detail'') ((rows j ! i) ''distributor_index'')"
      using o1 o2 r4 r3 r2 v1 [OF i] by simp
  qed
  show ?thesis using j len cells by blast
qed

lemma merge_rt_Inr:
  assumes "merge_rt bom rt = Inr out"
  shows "\<exists>cs. ''bom_release_id'' \<in> set cs \<and>
           length (rows out)
             = length (left_join ''bom_release_id'' (rows bom) (map (restrict_row cs) (rows rt)))"
proof -
  from assms obtain m m' where m: "rt_joined bom rt = Inr m" and
    f: "(if ''rt_rating'' \<in> set (columns m) then
                 and_then (getcol m ''mpaa_rating'') (\<lambda>mpaa.
                 and_then (getcol m ''rt_rating'') (\<lambda>rt.
                 Inr (setcol m ''mpaa_rating'' (map (\<lambda>(a, b). fillna a b) (zip mpaa rt)))))
               else Inr m) = Inr m'" and
    o: "out = m'"
    by (auto simp add: merge_rt_def and_then_Inr)
  have l: "length (rows m') = length (rows m)"
  proof (cases "''rt_rating'' \<in> set (columns m)")
    case False
    with f show ?thesis by simp
  next
    case True
    with f obtain mpaa rr where a: "getcol m ''mpaa_rating'' = Inr mpaa" and b: "getcol m ''rt_rating'' = Inr rr"
      and c: "m' = setcol m ''mpaa_rating'' (map (\<lambda>(a, b). fillna a b) (zip mpaa rr))"
      by (auto simp add: and_then_Inr)
    show ?thesis using getcol_Inr [OF a] getcol_Inr [OF b] c setcol_fill_rows [of m] by simp
  qed
  from m obtain sub where s: "select rt (filter (\<lambda>c. c \<in> set (columns rt)) rt_cols) = Inr sub"
    and p: "pd_merge_left bom sub ''bom_release_id'' ''_x'' ''_y'' = Inr m"
    by (auto simp add: rt_joined_def and_then_Inr)
  note ss = select_Inr [OF s] and pp = pd_merge_left_Inr [OF p]
  let ?cs = "filter (\<lambda>c. c \<in> set (columns rt)) rt_cols"
  have k: "''bom_release_id'' \<in> set ?cs" using ss pp by simp
  have "length (rows m) = length (left_join ''bom_release_id'' (rows bom)
       (map (restrict_row ?cs) (rows rt)))"
    using ss pp by simp
  then have e: "length (rows out) = length (left_join ''bom_release_id'' (rows bom)
       (map (restrict_row ?cs) (rows rt)))" using l o by simp
  show ?thesis using k e by blast
qed

lemma unique_keys_restrict:
  "key \<in> set cs \<Longrightarrow>
     map (\<lambda>r. norm_key (r key)) (map (restrict_row cs) rs) = map (\<lambda>r. norm_key (r key)) rs"
  by (simp add: restrict_row_def comp_def)

lemma merge_bom_length:
  assumes "merge_bom lib bi bd = Inr out"
  shows "length (rows out) = length (left_join ''bom_release_id'' (rows bi) (rows bd))"
proof -
  from merge_bom_Inr [OF assms] obtain j where j: "bom_joined bi bd = Inr j"
    and l: "length (rows out) = length (rows j)" by blast
  show ?thesis using bom_joined_Inr [OF j] l by simp
qed

theorem left_join_row_count:
  "(merge_bom lib bom_index bom_details = Inr out \<longrightarrow>
      length (rows bom_index) \<le> length (rows out) \<and>
      (unique_keys ''bom_release_id'' bom_details \<longrightarrow> length (rows out) = length (rows bom_index))) \<and>
   (merge_rt bom rt_scores = Inr out' \<longrightarrow>
      length (rows bom) \<le> length (rows out') \<and>
      (unique_keys ''bom_release_id'' rt_scores \<longrightarrow> length (rows out') = length (rows bom)))"
proof (intro conjI impI)
  assume a: "merge_bom lib bom_index bom_details = Inr out"
  show "length (rows bom_index) \<le> length (rows out)"
    using merge_bom_length [OF a] left_join_length_ge by simp
  assume "unique_keys ''bom_release_id'' bom_details"
  then show "length (rows out) = length (rows bom_index)"
    using merge_bom_length [OF a] left_join_length_unique by (simp add: unique_keys_def)
next
  assume a: "merge_rt bom rt_scores = Inr out'"
  from merge_rt_Inr [OF a] obtain cs where k: "''bom_release_id'' \<in> set cs" and
    l: "length (rows out') = length (left_join ''bom_release_id'' (rows bom)
          (map (restrict_row cs) (rows rt_scores)))" by blast
  show "length (rows bom) \<le> length (rows out')" using l left_join_length_ge by simp
  assume "unique_keys ''bom_release_id'' rt_scores"
  then have "distinct (map (\<lambda>r. norm_key (r ''bom_release_id'')) (rows rt_scores))"
    by (simp add: unique_keys_def)
  then have "distinct (map (\<lambda>r. norm_key (r ''bom_release_id'')) (map (restrict_row cs) (rows rt_scores)))"
    by (simp only: unique_keys_restrict [OF k])
  then show "length (rows out') = length (rows bom)"
    using l left_join_length_unique by simp
qed

theorem bom_field_fallback:
  assumes "merge_bom lib bom_index bom_details = Inr out"
    and "i < length (rows out)"
    and "left_join ''bom_release_id'' (rows bom_index) (rows bom_details) ! i = (l, d)"
  shows "length (rows out) = length (left_join ''bom_release_id'' (rows bom_index) (rows bom_details)) \<and>
         (rows out ! i) ''domestic_gross''
           = (if isna (detail_cell d ''domestic_gross'') then l ''total_gross''
              else detail_cell d ''domestic_gross'') \<and>
         (rows out ! i) ''distributor''
           = (if isna (detail_cell d ''distributor'') then l ''distributor''
              else detail_cell d ''distributor'')"
proof -
  from merge_bom_Inr [OF assms(1)] obtain j where j: "bom_joined bom_index bom_details = Inr j"
    and n: "length (rows out) = length (rows j)"
    and c: "\<forall>i<length (rows j).
              (rows out ! i) ''domestic_gross''
                = fillna ((rows j ! i) ''domestic_gross'') ((rows j ! i) ''total_gross'') \<and>
              (rows out ! i) ''distributor''
                = fillna ((rows j ! i) ''distributor_detail'') ((rows j ! i) ''distributor_index'')"
    by blast
  note b = bom_joined_Inr [OF j]
  have ij: "i < length (rows j)" using assms(2) n by simp
  then have il: "i < length (left_join ''bom_release_id'' (rows bom_index) (rows bom_details))"
    using b by simp
  have r: "rows j ! i = bom_merged (l, d)" using b il assms(3) by simp
  show ?thesis using c ij r merge_bom_length [OF assms(1)] by (simp add: bom_merged_cells fillna_def)
qed

section \<open>Properties of the derived variables\<close>

lemma derive_all_frame:
  "derive_all specs df = Inr out \<Longrightarrow>
     length (rows out) = length (rows df) \<and>
     (\<forall>i<length (rows df). \<forall>c. c \<notin> fst ` set specs \<longrightarrow> (rows out ! i) c = (rows df ! i) c)"
proof (induction specs arbitrary: df)
  case Nil
  then show ?case by simp
next
  case (Cons spec specs)
  obtain dst src f where sp: "spec = (dst, src, f)" by (cases spec) auto
  from Cons.prems sp obtain df1 where w: "with_column dst src f df = Inr df1"
    and r: "derive_all specs df1 = Inr out" by (auto simp add: and_then_Inr)
  note a = with_column_Inr [OF w] and b = Cons.IH [OF r]
  show ?case using a b sp by auto
qed

lemma derive_all_value:
  "derive_all specs df = Inr out \<Longrightarrow> distinct (map fst specs) \<Longrightarrow> (dst, src, f) \<in> set specs \<Longrightarrow>
     src \<notin> fst ` set specs \<Longrightarrow> i < length (rows df) \<Longrightarrow>
     f ((rows df ! i) src) = Inr ((rows out ! i) dst)"
proof (induction specs arbitrary: df)
  case Nil
  then show ?case by simp
next
  case (Cons spec specs)
  obtain d0 s0 f0 where sp: "spec = (d0, s0, f0)" by (cases spec) auto
  from Cons.prems(1) sp obtain df1 where w: "with_column d0 s0 f0 df = Inr df1"
    and r: "derive_all specs df1 = Inr out" by (auto simp add: and_then_Inr)
  note a = with_column_Inr [OF w] and b = derive_all_frame [OF r]
  from a Cons.prems(5) have i1: "i < length (rows df1)" by simp
  show ?case
  proof (cases "(dst, src, f) = spec")
    case True
    then have e: "dst = d0" "src = s0" "f = f0" using sp by simp_all
    from Cons.prems(2) sp have "d0 \<notin> fst ` set specs" by simp
    then have "(rows out ! i) d0 = (rows df1 ! i) d0" using b i1 by simp
    then show ?thesis using a Cons.prems(5) e by simp
  next
    case False
    then have m: "(dst, src, f) \<in> set specs" using Cons.prems(3) by simp
    from Cons.prems(4) sp have ne: "src \<noteq> d0" and ns: "src \<notin> fst ` set specs" by auto
    from Cons.prems(2) have di: "distinct (map fst specs)" by simp
    have "f ((rows df1 ! i) src) = Inr ((rows out ! i) dst)"
      using Cons.IH [OF r di m ns i1] .
    moreover have "(rows df1 ! i) src = (rows df ! i) src" using a ne Cons.prems(5) by simp
    ultimately show ?thesis by simp
  qed
qed

lemma rdd_variables_value:
  assumes "construct_rdd_variables lib cfg df = Inr out" and "i < length (rows df)"
    and "(dst, src, f) \<in> set (rdd_variables lib cfg)"
  shows "f ((rows df ! i) src) = Inr ((rows out ! i) dst)"
proof -
  have d: "distinct (map fst (rdd_variables lib cfg))" by (simp add: rdd_variables_def)
  have s: "src \<notin> fst ` set (rdd_variables lib cfg)" using assms(3) by (auto simp add: rdd_variables_def)
  show ?thesis
    using derive_all_value [OF assms(1) [unfolded construct_rdd_variables_def] d assms(3) s assms(2)] .
qed

lemma log_budget_of_null:
  "log_budget_of lib b = Inr v \<Longrightarrow> isna b \<or> (\<exists>x. b = Num x \<and> x \<le> 0) \<Longrightarrow> v = NaN"
  by (auto simp add: log_budget_of_def num_view_def and_then_def isna_def)

lemma log_budget_of_positive:
  "log_budget_of lib (Num x) = Inr v \<Longrightarrow> 0 < x \<Longrightarrow> v = Num (np_log lib (max x 1))"
  by (auto simp add: log_budget_of_def num_view_def and_then_def)

lemma log_floored_value:
  "log_floored lib (Num x) = Inr v \<Longrightarrow> v = Num (np_log lib (max x 1))"
  by (auto simp add: log_floored_def num_view_def and_then_def)

text \<open>
  Claim C8. For every row of the table given to \<^verbatim>\<open>construct_rdd_variables\<close> (the filtered
  table), when the function returns: the log-budget is NaN (null) whenever the production
  budget is missing or not positive, never the log of a floored value, and is the log of
  the budget floored at 1 for a positive budget; the log of the opening gross, of the
  total gross and of the theater count is the natural log (\<^verbatim>\<open>np.log\<close>) of the value
  floored at 1.
\<close>

theorem log_variables:
  assumes "construct_rdd_variables lib cfg df = Inr out" and "i < length (rows df)"
  shows "length (rows out) = length (rows df) \<and>
    (isna ((rows df ! i) ''production_budget'') \<or>
     (\<exists>x. (rows df ! i) ''production_budget'' = Num x \<and> x \<le> 0) \<longrightarrow>
       (rows out ! i) ''log_budget'' = NaN) \<and>
    (\<forall>x. (rows df ! i) ''production_budget'' = Num x \<and> 0 < x \<longrightarrow>
       (rows out ! i) ''log_budget'' = Num (np_log lib (max x 1))) \<and>
    (\<forall>x. (rows df ! i) ''opening_wknd_gross'' = Num x \<longrightarrow>
       (rows out ! i) ''log_opening_gross'' = Num (np_log lib (max x 1))) \<and>
    (\<forall>x. (rows df ! i) ''domestic_gross'' = Num x \<longrightarrow>
       (rows out ! i) ''log_total_gross'' = Num (np_log lib (max x 1))) \<and>
    (\<forall>x. (rows df ! i) ''opening_wknd_theaters'' = Num x \<longrightarrow>
       (rows out ! i) ''log_theaters'' = Num (np_log lib (max x 1)))"
proof -
  note v = rdd_variables_value [OF assms]
  have b: "log_budget_of lib ((rows df ! i) ''production_budget'') = Inr ((rows out ! i) ''log_budget'')"
    by (rule v) (simp add: rdd_variables_def)
  have g: "log_floored lib ((rows df ! i) ''opening_wknd_gross'') = Inr ((rows out ! i) ''log_opening_gross'')"
    by (rule v) (simp add: rdd_variables_def)
  have t: "log_floored lib ((rows df ! i) ''domestic_gross'') = Inr ((rows out ! i) ''log_total_gross'')"
    by (rule v) (simp add: rdd_variables_def)
  have h: "log_floored lib ((rows df ! i) ''opening_wknd_theaters'') = Inr ((rows out ! i) ''log_theaters'')"
    by (rule v) (simp add: rdd_variables_def)
  have l: "length (rows out) = length (rows df)"
    using derive_all_frame assms(1) by (simp add: construct_rdd_variables_def)
  show ?thesis
  proof (intro conjI allI impI)
    show "length (rows out) = length (rows df)" by (rule l)
  next
    assume "isna ((rows df ! i) ''production_budget'') \<or>
      (\<exists>x. (rows df ! i) ''production_budget'' = Num x \<and> x \<le> 0)"
    then show "(rows out ! i) ''log_budget'' = NaN" using log_budget_of_null [OF b] by simp
  next
    fix x assume "(rows df ! i) ''production_budget'' = Num x \<and> 0 < x"
    then show "(rows out ! i) ''log_budget'' = Num (np_log lib (max x 1))"
      using log_budget_of_positive b by simp
  next
    fix x assume "(rows df ! i) ''opening_wknd_gross'' = Num x"
    then show "(rows out ! i) ''log_opening_gross'' = Num (np_log lib (max x 1))"
      using log_floored_value g by simp
  next
    fix x assume "(rows df ! i) ''domestic_gross'' = Num x"
    then show "(rows out ! i) ''log_total_gross'' = Num (np_log lib (max x 1))"
      using log_floored_value t by simp
  next
    fix x assume "(rows df ! i) ''opening_wknd_theaters'' = Num x"
    then show "(rows out ! i) ''log_theaters'' = Num (np_log lib (max x 1))"
      using log_floored_value h by simp
  qed
qed

lemmas frame_eval = with_column_def getcol_def setcol_def and_then_def num_view_def row_of_def

lemma films_example_constructed:
  "\<exists>out. construct_rdd_variables example_lib default_config films_example = Inr out"
  by (simp add: construct_rdd_variables_def rdd_variables_def films_example_def frame_eval
      centered_def is_fresh_def log_floored_def log_budget_of_def year_column_def year_of_cell_def
      month_column_def in_theaters_of_def truthy_def year_cell_def)

text \<open>
  Claim C2 does not hold of the code. On the three films of \<open>films_example\<close>, whose critic
  scores are missing, 60 and 59, with the cutoff 60 of the configuration, the treatment
  indicator \<^verbatim>\<open>is_fresh_critic\<close> is 0, 1 and 0: the comparison \<^verbatim>\<open>df["tomatometer"] >= 60\<close> is
  \<^verbatim>\<open>False\<close> for the missing score, and \<^verbatim>\<open>astype("Int64")\<close> turns it into 0, not into a
  missing value.
\<close>

theorem is_fresh_of_missing_score:
  "(case construct_rdd_variables example_lib default_config films_example of
      Inr out \<Rightarrow> map (\<lambda>r. r ''is_fresh_critic'') (rows out) = [Num 0, Num 1, Num 0] \<and>
                 map (\<lambda>r. r ''tomatometer'') (rows out) = [NaN, Num 60, Num 59]
    | Inl e \<Rightarrow> False)"
  by (simp add: construct_rdd_variables_def rdd_variables_def films_example_def frame_eval
      centered_def is_fresh_def log_floored_def log_budget_of_def year_column_def year_of_cell_def
      month_column_def in_theaters_of_def truthy_def year_cell_def default_config_def)

lemma films_example_cells:
  "length (rows films_example) = 3"
  "(rows films_example ! 0) ''production_budget'' = NaN"
  "(rows films_example ! 1) ''production_budget'' = Num 0"
  "(rows films_example ! 2) ''production_budget'' = Num 2500000"
  "(rows films_example ! 2) ''opening_wknd_gross'' = Num 0"
  "(rows films_example ! 2) ''domestic_gross'' = Num 5"
  "(rows films_example ! 2) ''opening_wknd_theaters'' = Num 600"
  by (simp_all add: films_example_def row_of_def)

theorem log_variables_witness:
  "isna ((rows films_example ! 0) ''production_budget'') \<and>
   (rows films_example ! 1) ''production_budget'' = Num 0 \<and>
   (rows films_example ! 2) ''production_budget'' = Num 2500000 \<and>
   (rows films_example ! 2) ''opening_wknd_gross'' = Num 0 \<and>
   (case construct_rdd_variables example_lib default_config films_example of
      Inr out \<Rightarrow>
        length (rows out) = 3 \<and>
        (rows out ! 0) ''log_budget'' = NaN \<and>
        (rows out ! 1) ''log_budget'' = NaN \<and>
        (rows out ! 2) ''log_budget'' = Num (ln 2500000) \<and>
        (rows out ! 2) ''log_opening_gross'' = Num (ln 1) \<and>
        (rows out ! 2) ''log_total_gross'' = Num (ln 5) \<and>
        (rows out ! 2) ''log_theaters'' = Num (ln 600)
    | Inl e \<Rightarrow> False)"
proof -
  note c = films_example_cells
  obtain out where o: "construct_rdd_variables example_lib default_config films_example = Inr out"
    using films_example_constructed by blast
  have l: "np_log example_lib = ln" by (simp add: example_lib_def)
  have n0: "isna ((rows films_example ! 0) ''production_budget'')" by (simp add: c isna_def)
  have t0: "(rows out ! 0) ''log_budget'' = NaN \<and> length (rows out) = 3"
    using log_variables [OF o, of 0] n0 c(1) by simp
  have t1: "(rows out ! 1) ''log_budget'' = NaN"
    using log_variables [OF o, of 1] c(1) c(3) by simp
  have t2: "(rows out ! 2) ''log_budget'' = Num (ln 2500000) \<and>
        (rows out ! 2) ''log_opening_gross'' = Num (ln 1) \<and>
        (rows out ! 2) ''log_total_gross'' = Num (ln 5) \<and>
        (rows out ! 2) ''log_theaters'' = Num (ln 600)"
    using log_variables [OF o, of 2] c l by simp
  show ?thesis using o n0 c t0 t1 t2 by simp
qed

end
